theory Spec2Isabelle
  imports Main "HOL-Library.Sublist"
begin

section \<open>Data model\<close>

text \<open>
  The alerting package of lec-core: \<open>AlertManager\<close> (alert-manager.ts) renders an
  alert batch and mails it with retries, \<open>FailureDetector\<close> (failure-detector.ts) keeps
  a per-worker list of failure timestamps and escalates when a threshold is reached.

  Conventions of the embedding.
  \<^item> JavaScript numbers that the code uses as counts, indices and millisecond values
    (\<open>maxAttempts\<close>, \<open>attempt\<close>, \<open>delays\<close>, epoch milliseconds, thresholds) are
    \<open>int\<close>: the model covers integral configurations.
  \<^item> A JavaScript string is a \<open>string\<close>; \<open>toLowerCase\<close> is modelled on the ASCII
    letters, every other character is left as it is.
  \<^item> A value that is \<open>T | undefined\<close> or \<open>T | null\<close> is a \<open>T option\<close>.
  \<^item> A call that may throw yields an \<open>outcome\<close>: \<open>Returns v\<close> or \<open>Throws msg\<close>.
  \<^item> Logging (\<open>console.info\<close>, \<open>console.warn\<close>, \<open>console.error\<close>) is not modelled.
\<close>

datatype 'a outcome = Returns 'a | Throws string

text \<open>
  Modelled from the spec: the file types.ts (\<open>AlertType\<close>, \<open>AlertSeverity\<close>,
  \<open>Alert\<close>, \<open>AlertError\<close>, \<open>ALERT_THRESHOLDS\<close>) is not among the sources. The
  categories are the ones the documentation and the doc comments name; the severities are
  the four keys of the icon table in \<open>getSeverityIcon\<close>.
\<close>

datatype AlertType = JOB_FAILURE | REPEATED_FAILURES | RATE_LIMIT | WORKER_DOWN | SYSTEM_ERROR

datatype AlertSeverity = CRITICAL | HIGH | MEDIUM | LOW

text \<open>A value of the open \<open>context\<close> mapping of an alert.\<close>

datatype ContextValue = CNum int | CStr string

record Alert =
  type :: AlertType
  severity :: AlertSeverity
  workerName :: "string option"
  timestamp :: int
  alert_context :: "(string \<times> ContextValue) list"
  message :: string

text \<open>
  \<open>AlertError\<close> is built from a message and an object with \<open>alertType\<close>,
  \<open>recipient\<close> and \<open>context\<close>. The alert type is an \<open>AlertType\<close> or the literal
  \<open>"CUSTOM"\<close>; the context is one of the shapes the call sites build.
\<close>

datatype ErrorAlertType = OfType AlertType | CUSTOM

datatype ErrorContext =
    CtxText string
  | CtxUndefined
  | CtxErrorAttempts string int
  | CtxResponse "string option"
  | CtxAttempts int

record AlertError =
  err_message :: string
  err_alertType :: ErrorAlertType
  err_recipient :: string
  err_context :: ErrorContext

text \<open>nodemailer.ts: \<open>SendEmailParams\<close> (the fields the alert manager sets) and
  \<open>SendEmailResult\<close>, whose \<open>data\<close> is \<open>{ id } | null\<close>.\<close>

record SendEmailParams =
  p_from :: string
  p_to :: string
  p_subject :: string
  p_html :: "string option"
  p_text :: "string option"

record TransportError =
  te_message :: string
  statusCode :: "int option"

record SendEmailResult =
  data :: "string option"
  error :: "TransportError option"

record EmailSent =
  email_id :: string
  sent_timestamp :: int

datatype Result = Ok EmailSent | Err AlertError

text \<open>\<open>AlertManagerConfig\<close>, with the optional fields as options. The SMTP settings
  only reach the transport, which is a parameter of the model.\<close>

record RetryOptions =
  opt_maxAttempts :: "int option"
  opt_delays :: "int list option"

record ThresholdOptions =
  opt_failuresInWindow :: "int option"
  opt_timeWindowMinutes :: "int option"

record AlertManagerConfig =
  fromEmail :: "string option"
  adminEmail :: string
  retry :: "RetryOptions option"
  thresholds :: "ThresholdOptions option"
  debounceWindowMs :: "int option"

record RetryConfig =
  maxAttempts :: int
  delays :: "int list"

record Thresholds =
  failuresInWindow :: int
  timeWindowMinutes :: int

text \<open>The fields of an \<open>AlertManager\<close> instance (the mailer is in \<open>env\<close> below).\<close>

record AlertManager =
  config :: AlertManagerConfig
  retryConfig :: RetryConfig
  thresholdsConfig :: Thresholds
  am_debounceWindowMs :: int

text \<open>
  The collaborators. \<open>mailer k p\<close> is what \<open>NodemailerClient.send\<close> answers to the
  message \<open>p\<close> when \<open>k\<close> sends were made before it; \<open>render\<close> is the template
  renderer.
\<close>

record env =
  mailer :: "nat \<Rightarrow> SendEmailParams \<Rightarrow> SendEmailResult outcome"
  render :: "Alert list \<Rightarrow> AlertType \<Rightarrow> AlertSeverity \<Rightarrow> string outcome"

text \<open>
  The mutable world: the clock, the trace of the effects (messages handed to the mailer,
  durations slept, batches handed to the renderer), the static \<open>AlertManager.instance\<close>
  and the detector's \<open>failureHistory\<close> map. The clock is idealised: time passes only
  while the code sleeps, or when a caller sets \<open>now\<close> between two calls.
\<close>

record world =
  now :: int
  sent :: "SendEmailParams list"
  slept :: "int list"
  rendered :: "(Alert list \<times> AlertType \<times> AlertSeverity) list"
  am_instance :: "AlertManager option"
  failureHistory :: "string \<rightharpoonup> int list"

section \<open>AlertManager\<close>

definition DEFAULT_RETRY_CONFIG :: RetryConfig where
  "DEFAULT_RETRY_CONFIG = \<lparr>maxAttempts = 3, delays = [1000, 2000, 4000]\<rparr>"

definition DEFAULT_THRESHOLDS :: Thresholds where
  "DEFAULT_THRESHOLDS = \<lparr>failuresInWindow = 5, timeWindowMinutes = 10\<rparr>"

definition DEFAULT_DEBOUNCE_WINDOW_MS :: int where
  "DEFAULT_DEBOUNCE_WINDOW_MS = 5 * 60 * 1000"

text \<open>\<open>a ?? b\<close> on an optional value.\<close>

definition nullish :: "'a option \<Rightarrow> 'a \<Rightarrow> 'a" where
  "nullish a b = (case a of None \<Rightarrow> b | Some v \<Rightarrow> v)"

text \<open>The constructor.\<close>

definition new_AlertManager :: "AlertManagerConfig \<Rightarrow> AlertManager" where
  "new_AlertManager c =
     \<lparr>config = c,
      retryConfig =
        \<lparr>maxAttempts = nullish (Option.bind (retry c) opt_maxAttempts)
                          (maxAttempts DEFAULT_RETRY_CONFIG),
         delays = nullish (Option.bind (retry c) opt_delays) (delays DEFAULT_RETRY_CONFIG)\<rparr>,
      thresholdsConfig =
        \<lparr>failuresInWindow = nullish (Option.bind (thresholds c) opt_failuresInWindow)
                               (failuresInWindow DEFAULT_THRESHOLDS),
         timeWindowMinutes = nullish (Option.bind (thresholds c) opt_timeWindowMinutes)
                                (timeWindowMinutes DEFAULT_THRESHOLDS)\<rparr>,
      am_debounceWindowMs = nullish (debounceWindowMs c) DEFAULT_DEBOUNCE_WINDOW_MS\<rparr>"

text \<open>\<open>AlertManager.initialize\<close>: an existing instance is kept.\<close>

definition initialize :: "AlertManagerConfig \<Rightarrow> world \<Rightarrow> AlertManager \<times> world" where
  "initialize c w =
     (case am_instance w of
        Some am \<Rightarrow> (am, w)
      | None \<Rightarrow> (new_AlertManager c, w\<lparr>am_instance := Some (new_AlertManager c)\<rparr>))"

text \<open>\<open>AlertManager.getInstance\<close> throws when nothing was initialised.\<close>

definition getInstance :: "world \<Rightarrow> AlertManager outcome" where
  "getInstance w =
     (case am_instance w of
        None \<Rightarrow> Throws ''AlertManager not initialized. Call AlertManager.initialize(config) first.''
      | Some am \<Rightarrow> Returns am)"

text \<open>The getter \<open>debounceWindow\<close>: the only code that reads the debounce window.\<close>

definition debounceWindow :: "AlertManager \<Rightarrow> int" where
  "debounceWindow am = am_debounceWindowMs am"

subsection \<open>Error classification\<close>

definition toLowerCase_char :: "char \<Rightarrow> char" where
  "toLowerCase_char c =
     (let n = (of_char c :: nat) in if 65 \<le> n \<and> n \<le> 90 then char_of (n + 32) else c)"

definition toLowerCase :: "string \<Rightarrow> string" where
  "toLowerCase s = map toLowerCase_char s"

text \<open>\<open>s.includes(t)\<close>: \<open>t\<close> occurs in \<open>s\<close> as a contiguous run.\<close>

fun str_includes :: "string \<Rightarrow> string \<Rightarrow> bool" where
  "str_includes [] t = (t = [])"
| "str_includes (c # s) t = (prefix t (c # s) \<or> str_includes s t)"

definition isTransientError :: "TransportError \<Rightarrow> bool" where
  "isTransientError e =
     (if statusCode e = Some 429 \<or> statusCode e = Some 503 then True
      else let msg = toLowerCase (te_message e)
           in str_includes msg ''timeout'' \<or> str_includes msg ''network'' \<or>
              str_includes msg ''econnrefused'')"

subsection \<open>Effects\<close>

definition sleep :: "int \<Rightarrow> world \<Rightarrow> world" where
  "sleep ms w = w\<lparr>slept := slept w @ [ms], now := now w + max ms 0\<rparr>"

definition mailer_send :: "env \<Rightarrow> SendEmailParams \<Rightarrow> world \<Rightarrow> SendEmailResult outcome \<times> world" where
  "mailer_send e p w = (mailer e (length (sent w)) p, w\<lparr>sent := sent w @ [p]\<rparr>)"

definition call_render ::
  "env \<Rightarrow> Alert list \<Rightarrow> AlertType \<Rightarrow> AlertSeverity \<Rightarrow> world \<Rightarrow> string outcome \<times> world" where
  "call_render e alerts alertType sev w =
     (render e alerts alertType sev, w\<lparr>rendered := rendered w @ [(alerts, alertType, sev)]\<rparr>)"

subsection \<open>Subject line\<close>

fun AlertSeverity_str :: "AlertSeverity \<Rightarrow> string" where
  "AlertSeverity_str CRITICAL = ''CRITICAL''"
| "AlertSeverity_str HIGH = ''HIGH''"
| "AlertSeverity_str MEDIUM = ''MEDIUM''"
| "AlertSeverity_str LOW = ''LOW''"

fun AlertType_str :: "AlertType \<Rightarrow> string" where
  "AlertType_str JOB_FAILURE = ''JOB_FAILURE''"
| "AlertType_str REPEATED_FAILURES = ''REPEATED_FAILURES''"
| "AlertType_str RATE_LIMIT = ''RATE_LIMIT''"
| "AlertType_str WORKER_DOWN = ''WORKER_DOWN''"
| "AlertType_str SYSTEM_ERROR = ''SYSTEM_ERROR''"

text \<open>The icon literals, byte for byte as the source file holds them (UTF-8). Every
  severity has an entry in the table, so the fallback of the source is never taken.\<close>

fun getSeverityIcon :: "AlertSeverity \<Rightarrow> string" where
  "getSeverityIcon CRITICAL =
     [CHR 0xEF, CHR 0xA3, CHR 0xBF, CHR 0xC3, CHR 0xBC, CHR 0xC3, CHR 0xB6, CHR 0xC2, CHR 0xAE]"
| "getSeverityIcon HIGH =
     [CHR 0xE2, CHR 0x80, CHR 0x9A, CHR 0xC3, CHR 0xB6, CHR 0xE2, CHR 0x80, CHR 0xA0, CHR 0xC3,
      CHR 0x94, CHR 0xE2, CHR 0x88, CHR 0x8F, CHR 0xC3, CHR 0xA8]"
| "getSeverityIcon MEDIUM =
     [CHR 0xE2, CHR 0x80, CHR 0x9A, CHR 0xC3, CHR 0x91, CHR 0xCF, CHR 0x80, CHR 0xC3, CHR 0x94,
      CHR 0xE2, CHR 0x88, CHR 0x8F, CHR 0xC3, CHR 0xA8]"
| "getSeverityIcon LOW =
     [CHR 0xEF, CHR 0xA3, CHR 0xBF, CHR 0xC3, CHR 0xBC, CHR 0xC3, CHR 0xAC, CHR 0xC3, CHR 0xB9]"

definition getAlertSubject :: "AlertSeverity \<Rightarrow> AlertType \<Rightarrow> string" where
  "getAlertSubject sev alertType =
     getSeverityIcon sev @ '' '' @ AlertSeverity_str sev @ '': '' @ AlertType_str alertType"

subsection \<open>Sending with retries\<close>

record RetryParams =
  rp_subject :: string
  rp_html :: string
  rp_alertType :: AlertType
  rp_fromEmail :: string

text \<open>\<open>this.retryConfig.delays[attempt] ?? 1000\<close>: an index past the end of a
  JavaScript array reads \<open>undefined\<close>, which \<open>??\<close> replaces by 1000.\<close>

definition retry_delay :: "AlertManager \<Rightarrow> int \<Rightarrow> int" where
  "retry_delay am attempt =
     (if 0 \<le> attempt \<and> nat attempt < length (delays (retryConfig am))
      then delays (retryConfig am) ! nat attempt else 1000)"

definition send_error :: "AlertManager \<Rightarrow> string \<Rightarrow> AlertType \<Rightarrow> ErrorContext \<Rightarrow> AlertError" where
  "send_error am msg alertType ctx =
     \<lparr>err_message = msg, err_alertType = OfType alertType,
      err_recipient = adminEmail (config am), err_context = ctx\<rparr>"

text \<open>The \<open>for\<close> loop of \<open>sendWithRetry\<close>, from the attempt index \<open>attempt\<close> on.\<close>

function sendWithRetry_loop ::
  "env \<Rightarrow> AlertManager \<Rightarrow> RetryParams \<Rightarrow> int \<Rightarrow> world \<Rightarrow> Result \<times> world" where
  "sendWithRetry_loop e am params attempt w =
     (if attempt < maxAttempts (retryConfig am) then
        (case mailer_send e
                \<lparr>p_from = rp_fromEmail params, p_to = adminEmail (config am),
                 p_subject = rp_subject params, p_html = Some (rp_html params),
                 p_text = None\<rparr> w of
           (Returns r, w1) \<Rightarrow>
             (case error r of
                Some err \<Rightarrow>
                  (let isTransient = isTransientError err in
                   if \<not> isTransient \<or> attempt = maxAttempts (retryConfig am) - 1 then
                     (Err (send_error am ''Failed to send alert email'' (rp_alertType params)
                             (CtxErrorAttempts (te_message err) (attempt + 1))), w1)
                   else sendWithRetry_loop e am params (attempt + 1)
                          (sleep (retry_delay am attempt) w1))
              | None \<Rightarrow>
                  (case data r of
                     None \<Rightarrow>
                       (Err (send_error am ''Invalid response from mailer'' (rp_alertType params)
                               (CtxResponse (data r))), w1)
                   | Some i \<Rightarrow>
                       if i = [] then
                         (Err (send_error am ''Invalid response from mailer''
                                 (rp_alertType params) (CtxResponse (data r))), w1)
                       else (Ok \<lparr>email_id = i, sent_timestamp = now w1\<rparr>, w1)))
         | (Throws errorMessage, w1) \<Rightarrow>
             if attempt < maxAttempts (retryConfig am) - 1 then
               sendWithRetry_loop e am params (attempt + 1) (sleep (retry_delay am attempt) w1)
             else
               (Err (send_error am ''Failed to send alert email after retries''
                       (rp_alertType params) (CtxErrorAttempts errorMessage (attempt + 1))), w1))
      else
        (Err (send_error am ''Failed to send alert email'' (rp_alertType params)
                (CtxAttempts (maxAttempts (retryConfig am)))), w))"
  by pat_completeness auto
termination
  by (relation "measure (\<lambda>(e, am, params, attempt, w). nat (maxAttempts (retryConfig am) - attempt))")
     auto

declare sendWithRetry_loop.simps [simp del]

definition sendWithRetry :: "env \<Rightarrow> AlertManager \<Rightarrow> RetryParams \<Rightarrow> world \<Rightarrow> Result \<times> world" where
  "sendWithRetry e am params w = sendWithRetry_loop e am params 0 w"

subsection \<open>Public operations\<close>

text \<open>\<open>!fromEmail\<close> holds for \<open>undefined\<close> and for the empty string.\<close>

definition falsy :: "string option \<Rightarrow> bool" where
  "falsy s = (case s of None \<Rightarrow> True | Some v \<Rightarrow> v = [])"

text \<open>\<open>sendAlerts\<close>; \<open>opt_from\<close> is \<open>options?.from\<close>.\<close>

definition sendAlerts ::
  "env \<Rightarrow> AlertManager \<Rightarrow> Alert list \<Rightarrow> AlertType \<Rightarrow> AlertSeverity \<Rightarrow> string option \<Rightarrow> world
     \<Rightarrow> Result \<times> world" where
  "sendAlerts e am alerts alertType sev opt_from w =
     (let subject = getAlertSubject sev alertType;
          fromEmail' = (case opt_from of Some f \<Rightarrow> Some f | None \<Rightarrow> fromEmail (config am))
      in if falsy fromEmail' then
           (Err \<lparr>err_message = ''No from email provided'', err_alertType = OfType alertType,
                 err_recipient = adminEmail (config am),
                 err_context = CtxText ''Provide fromEmail in config or pass it in options''\<rparr>, w)
         else
           (case call_render e alerts alertType sev w of
              (Throws m, w1) \<Rightarrow>
                (Err \<lparr>err_message = ''Failed to render alert email template'',
                      err_alertType = OfType alertType,
                      err_recipient = adminEmail (config am), err_context = CtxText m\<rparr>, w1)
            | (Returns html, w1) \<Rightarrow>
                sendWithRetry e am
                  \<lparr>rp_subject = subject, rp_html = html, rp_alertType = alertType,
                   rp_fromEmail = the fromEmail'\<rparr> w1))"

definition sendAlert :: "env \<Rightarrow> AlertManager \<Rightarrow> Alert \<Rightarrow> string option \<Rightarrow> world \<Rightarrow> Result \<times> world" where
  "sendAlert e am alert opt_from w =
     sendAlerts e am [alert] (type alert) (severity alert) opt_from w"

record CustomEmailParams =
  ce_from :: "string option"
  ce_to :: "string option"
  ce_subject :: string
  ce_html :: string
  ce_text :: "string option"

text \<open>\<open>sendCustomEmail\<close>: one call of the mailer, outside any \<open>try\<close>, so that an
  exception of the mailer leaves the function.\<close>

definition sendCustomEmail ::
  "env \<Rightarrow> AlertManager \<Rightarrow> CustomEmailParams \<Rightarrow> world \<Rightarrow> Result outcome \<times> world" where
  "sendCustomEmail e am params w =
     (let recipient = nullish (ce_to params) (adminEmail (config am));
          fromEmail' = (case ce_from params of Some f \<Rightarrow> Some f
                        | None \<Rightarrow> fromEmail (config am))
      in if falsy fromEmail' then
           (Returns (Err \<lparr>err_message = ''No from email provided'', err_alertType = CUSTOM,
                 err_recipient = recipient,
                 err_context = CtxText ''Provide fromEmail in config or pass it in params''\<rparr>), w)
         else
           (case mailer_send e
                   \<lparr>p_from = the fromEmail', p_to = recipient, p_subject = ce_subject params,
                    p_html = Some (ce_html params), p_text = ce_text params\<rparr> w of
              (Throws m, w1) \<Rightarrow> (Throws m, w1)
            | (Returns r, w1) \<Rightarrow>
                if error r \<noteq> None \<or> data r = None then
                  (Returns (Err \<lparr>err_message = ''Failed to send custom email'',
                        err_alertType = CUSTOM, err_recipient = recipient,
                        err_context = (case error r of None \<Rightarrow> CtxUndefined
                                       | Some err \<Rightarrow> CtxText (te_message err))\<rparr>), w1)
                else (Returns (Ok \<lparr>email_id = the (data r), sent_timestamp = now w1\<rparr>), w1)))"

section \<open>FailureDetector\<close>

text \<open>A number in a template string, for the integers the detector prints.\<close>

fun nat_str :: "nat \<Rightarrow> string" where
  "nat_str n = (if n < 10 then [char_of (48 + n)]
                else nat_str (n div 10) @ [char_of (48 + n mod 10)])"

declare nat_str.simps [simp del]

definition Number_str :: "int \<Rightarrow> string" where
  "Number_str i = (if i < 0 then CHR ''-'' # nat_str (nat (- i)) else nat_str (nat i))"

text \<open>\<open>this.failureHistory.get(workerName) || []\<close>.\<close>

definition history_of :: "world \<Rightarrow> string \<Rightarrow> int list" where
  "history_of w wn = (case failureHistory w wn of None \<Rightarrow> [] | Some f \<Rightarrow> f)"

text \<open>The alert that \<open>trackJobFailure\<close> builds.\<close>

definition repeated_failures_alert ::
  "Thresholds \<Rightarrow> string \<Rightarrow> string \<Rightarrow> string \<Rightarrow> int \<Rightarrow> int \<Rightarrow> Alert" where
  "repeated_failures_alert th jobId wn err nw n =
     \<lparr>type = REPEATED_FAILURES, severity = HIGH, workerName = Some wn, timestamp = nw,
      alert_context =
        [(''failureCount'', CNum n), (''timeWindowMinutes'', CNum (timeWindowMinutes th)),
         (''jobId'', CStr jobId), (''error'', CStr err)],
      message =
        wn @ '' has '' @ Number_str n @ '' failures in '' @ Number_str (timeWindowMinutes th)
           @ '' minutes (threshold: '' @ Number_str (failuresInWindow th) @ '')''\<rparr>"

text \<open>\<open>trackJobFailure\<close>; \<open>th\<close> is the constant \<open>ALERT_THRESHOLDS\<close> of types.ts, a
  parameter here. The history is written before the alert manager is looked up, and
  cleared only after \<open>sendAlert\<close> has returned.\<close>

definition trackJobFailure ::
  "env \<Rightarrow> Thresholds \<Rightarrow> string \<Rightarrow> string \<Rightarrow> string \<Rightarrow> world \<Rightarrow> unit outcome \<times> world" where
  "trackJobFailure e th jobId wn err w =
     (let nw = now w;
          failures = history_of w wn @ [nw];
          timeWindowMs = timeWindowMinutes th * 60 * 1000;
          cutoffTime = nw - timeWindowMs;
          recentFailures = filter (\<lambda>t. t \<ge> cutoffTime) failures;
          w1 = w\<lparr>failureHistory := (failureHistory w)(wn \<mapsto> recentFailures)\<rparr>
      in if int (length recentFailures) \<ge> failuresInWindow th then
           (case getInstance w1 of
              Throws m \<Rightarrow> (Throws m, w1)
            | Returns am \<Rightarrow>
                (case sendAlert e am
                        (repeated_failures_alert th jobId wn err nw (int (length recentFailures)))
                        None w1 of
                   (r, w2) \<Rightarrow>
                     (Returns (), w2\<lparr>failureHistory := (failureHistory w2)(wn \<mapsto> [])\<rparr>)))
         else (Returns (), w1))"

definition getFailureCount :: "Thresholds \<Rightarrow> string \<Rightarrow> world \<Rightarrow> nat" where
  "getFailureCount th wn w =
     (let failures = history_of w wn;
          timeWindowMs = timeWindowMinutes th * 60 * 1000;
          cutoffTime = now w - timeWindowMs;
          recentFailures = filter (\<lambda>t. t \<ge> cutoffTime) failures
      in length recentFailures)"

definition resetFailureHistory :: "string \<Rightarrow> world \<Rightarrow> world" where
  "resetFailureHistory wn w = w\<lparr>failureHistory := (failureHistory w)(wn := None)\<rparr>"

definition clearAll :: "world \<Rightarrow> world" where
  "clearAll w = w\<lparr>failureHistory := Map.empty\<rparr>"

section \<open>Notions used in the statements\<close>

text \<open>What one answer of the mailer is: a transient failure, or a success with a
  message id.\<close>

definition transient_failure :: "SendEmailResult outcome \<Rightarrow> bool" where
  "transient_failure out =
     (case out of
        Returns r \<Rightarrow> (case error r of Some err \<Rightarrow> isTransientError err | None \<Rightarrow> False)
      | Throws m \<Rightarrow> False)"

definition success_with :: "string \<Rightarrow> SendEmailResult outcome \<Rightarrow> bool" where
  "success_with i out =
     (case out of
        Returns r \<Rightarrow> error r = None \<and> data r = Some i \<and> i \<noteq> []
      | Throws m \<Rightarrow> False)"

text \<open>The message that \<open>sendWithRetry\<close> hands to the mailer at every attempt.\<close>

definition retry_message :: "AlertManager \<Rightarrow> RetryParams \<Rightarrow> SendEmailParams" where
  "retry_message am params =
     \<lparr>p_from = rp_fromEmail params, p_to = adminEmail (config am),
      p_subject = rp_subject params, p_html = Some (rp_html params), p_text = None\<rparr>"

text \<open>The world after \<open>n\<close> failed attempts that were retried, the first of them with
  index \<open>a\<close>: each one sends the message and sleeps.\<close>

fun after_retries :: "AlertManager \<Rightarrow> SendEmailParams \<Rightarrow> int \<Rightarrow> nat \<Rightarrow> world \<Rightarrow> world" where
  "after_retries am msg a 0 w = w"
| "after_retries am msg a (Suc n) w =
     after_retries am msg (a + 1) n (sleep (retry_delay am a) (w\<lparr>sent := sent w @ [msg]\<rparr>))"

text \<open>The sender that \<open>sendAlerts\<close> and \<open>sendCustomEmail\<close> settle on.\<close>

definition sender_of :: "AlertManager \<Rightarrow> string option \<Rightarrow> string option" where
  "sender_of am opt_from = (case opt_from of Some f \<Rightarrow> Some f | None \<Rightarrow> fromEmail (config am))"

definition custom_message :: "AlertManager \<Rightarrow> CustomEmailParams \<Rightarrow> SendEmailParams" where
  "custom_message am params =
     \<lparr>p_from = the (sender_of am (ce_from params)),
      p_to = nullish (ce_to params) (adminEmail (config am)),
      p_subject = ce_subject params, p_html = Some (ce_html params), p_text = ce_text params\<rparr>"

text \<open>The number of the timestamps \<open>ts\<close> that lie in the trailing window at time
  \<open>t\<close>, the lower bound included.\<close>

definition window_count :: "Thresholds \<Rightarrow> int list \<Rightarrow> int \<Rightarrow> nat" where
  "window_count th ts t = length (filter (\<lambda>x. t - timeWindowMinutes th * 60 * 1000 \<le> x) ts)"

text \<open>The timestamps that \<open>trackJobFailure\<close> keeps for a worker.\<close>

definition recent_failures :: "Thresholds \<Rightarrow> string \<Rightarrow> world \<Rightarrow> int list" where
  "recent_failures th wn w =
     filter (\<lambda>t. now w - timeWindowMinutes th * 60 * 1000 \<le> t) (history_of w wn @ [now w])"

section \<open>Concrete configurations\<close>

definition ex_config :: AlertManagerConfig where
  "ex_config = \<lparr>fromEmail = Some ''alerts@lec.test'', adminEmail = ''admin@lec.test'',
                retry = None, thresholds = None, debounceWindowMs = None\<rparr>"

definition ex_am :: AlertManager where
  "ex_am = new_AlertManager ex_config"

text \<open>Five attempts with the three default delays.\<close>

definition ex_am5 :: AlertManager where
  "ex_am5 = new_AlertManager
     (ex_config\<lparr>retry := Some \<lparr>opt_maxAttempts = Some 5, opt_delays = None\<rparr>\<rparr>)"

definition ex_am0 :: AlertManager where
  "ex_am0 = new_AlertManager
     (ex_config\<lparr>retry := Some \<lparr>opt_maxAttempts = Some 0, opt_delays = None\<rparr>\<rparr>)"

definition ex_am_nofrom :: AlertManager where
  "ex_am_nofrom = new_AlertManager (ex_config\<lparr>fromEmail := None\<rparr>)"

definition unavailable :: "SendEmailResult outcome" where
  "unavailable = Returns \<lparr>data = None,
      error = Some \<lparr>te_message = ''Service unavailable'', statusCode = Some 503\<rparr>\<rparr>"

definition delivered :: "SendEmailResult outcome" where
  "delivered = Returns \<lparr>data = Some ''<m1@lec.test>'', error = None\<rparr>"

definition ex_render :: "Alert list \<Rightarrow> AlertType \<Rightarrow> AlertSeverity \<Rightarrow> string outcome" where
  "ex_render alerts alertType sev = Returns (concat (map message alerts))"

text \<open>A mailer that always delivers, one that never does, and one that fails \<open>n\<close> times
  with status 503 before it delivers.\<close>

definition env_ok :: env where
  "env_ok = \<lparr>mailer = (\<lambda>k p. delivered), render = ex_render\<rparr>"

definition env_down :: env where
  "env_down = \<lparr>mailer = (\<lambda>k p. unavailable), render = ex_render\<rparr>"

definition env_flaky :: "nat \<Rightarrow> env" where
  "env_flaky n = \<lparr>mailer = (\<lambda>k p. if k < n then unavailable else delivered), render = ex_render\<rparr>"

definition ex_world :: world where
  "ex_world = \<lparr>now = 0, sent = [], slept = [], rendered = [], am_instance = Some ex_am,
               failureHistory = Map.empty\<rparr>"

definition ex_params :: RetryParams where
  "ex_params = \<lparr>rp_subject = ''subject'', rp_html = ''<p>body</p>'', rp_alertType = JOB_FAILURE,
                rp_fromEmail = ''alerts@lec.test''\<rparr>"

definition ex_custom :: CustomEmailParams where
  "ex_custom = \<lparr>ce_from = None, ce_to = None, ce_subject = ''notice'', ce_html = ''<p>hi</p>'',
                ce_text = None\<rparr>"

definition ex_alert :: "string \<Rightarrow> int \<Rightarrow> Alert" where
  "ex_alert m t = \<lparr>type = JOB_FAILURE, severity = CRITICAL, workerName = Some ''worker-A'',
                   timestamp = t, alert_context = [], message = m\<rparr>"

text \<open>Two alerts of one category, 10 ms apart: the world after the first call, and after
  the second.\<close>

definition ex_w1 :: world where
  "ex_w1 = snd (sendAlert env_ok ex_am (ex_alert ''first'' 0) None ex_world)"

definition ex_w2 :: world where
  "ex_w2 = snd (sendAlert env_ok ex_am (ex_alert ''second'' 10) None (ex_w1\<lparr>now := 10\<rparr>))"

definition ex_thresholds :: Thresholds where
  "ex_thresholds = \<lparr>failuresInWindow = 2, timeWindowMinutes = 1\<rparr>"

text \<open>A worker with one failure on record, 30 s before the present.\<close>

definition ex_world_hist :: world where
  "ex_world_hist = ex_world\<lparr>now := 90000, failureHistory := [''worker-A'' \<mapsto> [60000]]\<rparr>"

text \<open>Three failures on record, one of them exactly one window (60 s) old and one a
  millisecond older.\<close>

definition ex_world_boundary :: world where
  "ex_world_boundary =
     ex_world\<lparr>now := 90000, failureHistory := [''worker-A'' \<mapsto> [29999, 30000, 60000]]\<rparr>"

text \<open>A worker reporting failures: one call of \<open>trackJobFailure\<close> for each report
  (time, job id, error), made when the clock reads that time.\<close>

fun report_failures ::
  "env \<Rightarrow> Thresholds \<Rightarrow> string \<Rightarrow> (int \<times> string \<times> string) list \<Rightarrow> world \<Rightarrow> world" where
  "report_failures e th wn [] w = w"
| "report_failures e th wn ((t, jobId, err) # rs) w =
     report_failures e th wn rs (snd (trackJobFailure e th jobId wn err (w\<lparr>now := t\<rparr>)))"

text \<open>Four failures of one worker within a minute.\<close>

definition ex_reports :: "(int \<times> string \<times> string) list" where
  "ex_reports = [(0, ''job-1'', ''boom''), (10000, ''job-2'', ''boom''),
                 (20000, ''job-3'', ''boom''), (30000, ''job-4'', ''boom'')]"

text \<open>A mailer that answers with neither data nor error.\<close>

definition env_nodata :: env where
  "env_nodata = \<lparr>mailer = (\<lambda>k p. Returns \<lparr>data = None, error = None\<rparr>), render = ex_render\<rparr>"

section \<open>Facts about the concrete configurations\<close>

lemma ex_am_simps:
  "maxAttempts (retryConfig ex_am) = 3"
  "delays (retryConfig ex_am) = [1000, 2000, 4000]"
  "adminEmail (config ex_am) = ''admin@lec.test''"
  "fromEmail (config ex_am) = Some ''alerts@lec.test''"
  "am_debounceWindowMs ex_am = 300000"
  by (simp_all add: ex_am_def new_AlertManager_def ex_config_def nullish_def
        DEFAULT_RETRY_CONFIG_def DEFAULT_DEBOUNCE_WINDOW_MS_def)

lemma ex_am5_simps:
  "maxAttempts (retryConfig ex_am5) = 5"
  "delays (retryConfig ex_am5) = [1000, 2000, 4000]"
  "adminEmail (config ex_am5) = ''admin@lec.test''"
  by (simp_all add: ex_am5_def new_AlertManager_def ex_config_def nullish_def
        DEFAULT_RETRY_CONFIG_def)

lemma ex_am0_simps:
  "maxAttempts (retryConfig ex_am0) = 0"
  "adminEmail (config ex_am0) = ''admin@lec.test''"
  by (simp_all add: ex_am0_def new_AlertManager_def ex_config_def nullish_def)

lemma ex_am_nofrom_simps:
  "fromEmail (config ex_am_nofrom) = None"
  "adminEmail (config ex_am_nofrom) = ''admin@lec.test''"
  by (simp_all add: ex_am_nofrom_def new_AlertManager_def ex_config_def)

lemma ex_world_simps:
  "now ex_world = 0" "sent ex_world = []" "slept ex_world = []" "rendered ex_world = []"
  "am_instance ex_world = Some ex_am" "failureHistory ex_world = Map.empty"
  by (simp_all add: ex_world_def)

lemma ex_world_hist_simps:
  "now ex_world_hist = 90000" "am_instance ex_world_hist = Some ex_am"
  "rendered ex_world_hist = []"
  "history_of ex_world_hist ''worker-A'' = [60000]"
  by (simp_all add: ex_world_hist_def ex_world_def history_of_def)

lemma ex_thresholds_simps:
  "failuresInWindow ex_thresholds = 2" "timeWindowMinutes ex_thresholds = 1"
  by (simp_all add: ex_thresholds_def)

lemma env_simps:
  "mailer env_ok = (\<lambda>k p. delivered)" "render env_ok = ex_render"
  "mailer env_down = (\<lambda>k p. unavailable)" "render env_down = ex_render"
  "mailer (env_flaky n) = (\<lambda>k p. if k < n then unavailable else delivered)"
  "render (env_flaky n) = ex_render"
  by (simp_all add: env_ok_def env_down_def env_flaky_def)

lemma transient_unavailable: "transient_failure unavailable"
  by (simp add: transient_failure_def unavailable_def isTransientError_def)

lemma success_delivered: "success_with ''<m1@lec.test>'' delivered"
  by (simp add: success_with_def delivered_def)

lemma ex_recent: "recent_failures ex_thresholds ''worker-A'' ex_world_hist = [60000, 90000]"
  by (simp add: recent_failures_def ex_world_hist_simps ex_thresholds_simps)

section \<open>Error classification\<close>

lemma str_includes_sublist: "str_includes s t = sublist t s"
  by (induction s) (simp_all add: sublist_Cons_right)

text \<open>
  Claim C3. \<open>isTransientError\<close> is a total function of the error alone, with no failing
  branch: it answers true exactly when the status code is 429 or 503, or the message, in
  lower case, contains \<open>timeout\<close>, \<open>network\<close> or \<open>econnrefused\<close>; every other
  error gets the answer false, so each error is in exactly one of the two classes.
\<close>

theorem isTransientError_iff: "isTransientError e =
     (statusCode e = Some 429 \<or> statusCode e = Some 503 \<or>
      sublist ''timeout'' (toLowerCase (te_message e)) \<or>
      sublist ''network'' (toLowerCase (te_message e)) \<or>
      sublist ''econnrefused'' (toLowerCase (te_message e)))"
  by (simp add: isTransientError_def str_includes_sublist Let_def)

lemma isTransientError_examples:
  "isTransientError \<lparr>te_message = ''Too many requests'', statusCode = Some 429\<rparr>"
  "isTransientError \<lparr>te_message = ''Connection TIMEOUT'', statusCode = Some 500\<rparr>"
  "isTransientError \<lparr>te_message = ''connect ECONNREFUSED 127.0.0.1:587'', statusCode = None\<rparr>"
  "\<not> isTransientError \<lparr>te_message = ''Invalid login'', statusCode = Some 401\<rparr>"
  "\<not> isTransientError \<lparr>te_message = ''No recipients defined'', statusCode = Some 400\<rparr>"
  by code_simp+

section \<open>The retry loop\<close>

lemma loop_exit:
  "\<not> a < maxAttempts (retryConfig am) \<Longrightarrow>
   sendWithRetry_loop e am params a w =
     (Err (send_error am ''Failed to send alert email'' (rp_alertType params)
             (CtxAttempts (maxAttempts (retryConfig am)))), w)"
  by (subst sendWithRetry_loop.simps) simp

lemma loop_retry_step:
  assumes "a < maxAttempts (retryConfig am) - 1"
    and "transient_failure (mailer e (length (sent w)) (retry_message am params))"
  shows "sendWithRetry_loop e am params a w =
         sendWithRetry_loop e am params (a + 1)
           (sleep (retry_delay am a) (w\<lparr>sent := sent w @ [retry_message am params]\<rparr>))"
  using assms
  by (subst sendWithRetry_loop.simps)
     (auto simp: mailer_send_def transient_failure_def retry_message_def
           split: outcome.splits option.splits)

lemma loop_last_transient:
  assumes "a = maxAttempts (retryConfig am) - 1"
    and "transient_failure (mailer e (length (sent w)) (retry_message am params))"
  shows "\<exists>m. sendWithRetry_loop e am params a w =
         (Err (send_error am ''Failed to send alert email'' (rp_alertType params)
                 (CtxErrorAttempts m (maxAttempts (retryConfig am)))),
          w\<lparr>sent := sent w @ [retry_message am params]\<rparr>)"
  using assms
  by (subst sendWithRetry_loop.simps)
     (auto simp: mailer_send_def transient_failure_def retry_message_def
           split: outcome.splits option.splits)

lemma loop_success:
  assumes "a < maxAttempts (retryConfig am)"
    and "success_with i (mailer e (length (sent w)) (retry_message am params))"
  shows "sendWithRetry_loop e am params a w =
         (Ok \<lparr>email_id = i, sent_timestamp = now w\<rparr>,
          w\<lparr>sent := sent w @ [retry_message am params]\<rparr>)"
  using assms
  by (subst sendWithRetry_loop.simps)
     (auto simp: mailer_send_def success_with_def retry_message_def
           split: outcome.splits option.splits)

lemma sent_after_retries:
  "sent (after_retries am msg a n w) = sent w @ replicate n msg"
  by (induction n arbitrary: a w) (simp_all add: sleep_def replicate_app_Cons_same)

lemma slept_after_retries:
  "slept (after_retries am msg a n w) = slept w @ map (\<lambda>j. retry_delay am (a + int j)) [0..<n]"
proof (induction n arbitrary: a w)
  case 0
  then show ?case by simp
next
  case (Suc n)
  have "map (\<lambda>j. retry_delay am (a + int j)) [0..<Suc n] =
        retry_delay am a # map (\<lambda>j. retry_delay am (a + 1 + int j)) [0..<n]"
  proof -
    have "[0..<Suc n] = 0 # map Suc [0..<n]"
      by (simp add: upt_conv_Cons map_Suc_upt del: upt_Suc)
    then show ?thesis by (auto simp: comp_def algebra_simps simp del: upt_Suc)
  qed
  then show ?case using Suc.IH [of "a + 1"] by (simp add: sleep_def del: upt_Suc)
qed

lemma frame_after_retries:
  "rendered (after_retries am msg a n w) = rendered w"
  "am_instance (after_retries am msg a n w) = am_instance w"
  "failureHistory (after_retries am msg a n w) = failureHistory w"
  by (induction n arbitrary: a w) (simp_all add: sleep_def)

lemma loop_retries:
  assumes "a + int n < maxAttempts (retryConfig am)"
    and "\<forall>j<n. transient_failure (mailer e (length (sent w) + j) (retry_message am params))"
  shows "sendWithRetry_loop e am params a w =
         sendWithRetry_loop e am params (a + int n)
           (after_retries am (retry_message am params) a n w)"
  using assms
proof (induction n arbitrary: a w)
  case 0
  then show ?case by simp
next
  case (Suc n)
  let ?w1 = "sleep (retry_delay am a) (w\<lparr>sent := sent w @ [retry_message am params]\<rparr>)"
  have first: "transient_failure (mailer e (length (sent w)) (retry_message am params))"
    using Suc.prems(2) by (metis add.right_neutral zero_less_Suc)
  have rest: "\<forall>j<n. transient_failure (mailer e (length (sent ?w1) + j) (retry_message am params))"
  proof (intro allI impI)
    fix j assume "j < n"
    then have "Suc j < Suc n" by simp
    with Suc.prems(2) have "transient_failure (mailer e (length (sent w) + Suc j) (retry_message am params))"
      by blast
    then show "transient_failure (mailer e (length (sent ?w1) + j) (retry_message am params))"
      by (simp add: sleep_def)
  qed
  have "sendWithRetry_loop e am params a w = sendWithRetry_loop e am params (a + 1) ?w1"
    using Suc.prems(1) first by (intro loop_retry_step) auto
  also have "\<dots> = sendWithRetry_loop e am params (a + 1 + int n)
                     (after_retries am (retry_message am params) (a + 1) n ?w1)"
    using Suc.prems(1) rest by (intro Suc.IH) auto
  finally have "sendWithRetry_loop e am params a w =
      sendWithRetry_loop e am params (a + 1 + int n)
        (after_retries am (retry_message am params) (a + 1) n ?w1)" .
  moreover have "a + 1 + int n = a + int (Suc n)" by simp
  ultimately show ?case by (simp only: after_retries.simps)
qed

lemma loop_frame:
  "rendered (snd (sendWithRetry_loop e am params a w)) = rendered w \<and>
   am_instance (snd (sendWithRetry_loop e am params a w)) = am_instance w \<and>
   failureHistory (snd (sendWithRetry_loop e am params a w)) = failureHistory w"
proof (induction e am params a w rule: sendWithRetry_loop.induct)
  case (1 e am params attempt w)
  show ?case
    apply (subst (1 2 3) sendWithRetry_loop.simps)
    using 1
    apply (auto simp: mailer_send_def sleep_def Let_def split: outcome.splits option.splits prod.splits if_splits)
    done
qed

lemma loop_grows:
  "prefix (slept w) (slept (snd (sendWithRetry_loop e am params a w))) \<and>
   prefix (sent w) (sent (snd (sendWithRetry_loop e am params a w)))"
proof (induction "nat (maxAttempts (retryConfig am) - a)" arbitrary: a w)
  case 0
  then have "\<not> a < maxAttempts (retryConfig am)" by simp
  then show ?case by (simp add: loop_exit)
next
  case (Suc n)
  have IH: "prefix (slept w') (slept (snd (sendWithRetry_loop e am params (a + 1) w'))) \<and>
            prefix (sent w') (sent (snd (sendWithRetry_loop e am params (a + 1) w')))" for w'
    using Suc.hyps(2) by (intro Suc.hyps(1)) simp
  have IH1: "prefix (slept w) (slept (snd (sendWithRetry_loop e am params (a + 1) w')))"
    if "prefix (slept w) (slept w')" for w'
    using that IH [of w'] by (meson prefix_order.trans)
  have IH2: "prefix (sent w) (sent (snd (sendWithRetry_loop e am params (a + 1) w')))"
    if "prefix (sent w) (sent w')" for w'
    using that IH [of w'] by (meson prefix_order.trans)
  show ?case
    by (subst (1 2) sendWithRetry_loop.simps)
       (auto simp: mailer_send_def sleep_def Let_def
             split: outcome.splits option.splits intro!: IH1 IH2)
qed

lemma loop_sends_once:
  assumes "a < maxAttempts (retryConfig am)"
  shows "prefix (sent w @ [retry_message am params]) (sent (snd (sendWithRetry_loop e am params a w)))"
proof -
  have G: "prefix (sent w @ [retry_message am params])
             (sent (snd (sendWithRetry_loop e am params (a + 1) w')))"
    if "sent w' = sent w @ [retry_message am params]" for w'
    using loop_grows [of w' e am params "a + 1"] that by simp
  note G' = G [unfolded retry_message_def]
  show ?thesis
    using assms
    by (subst sendWithRetry_loop.simps)
       (auto simp: mailer_send_def sleep_def Let_def retry_message_def
             split: outcome.splits option.splits intro!: G')
qed

lemma loop_ignores_debounce:
  "sendWithRetry_loop e (am\<lparr>am_debounceWindowMs := d\<rparr>) params a w =
   sendWithRetry_loop e am params a w"
proof (induction "nat (maxAttempts (retryConfig am) - a)" arbitrary: a w)
  case 0
  then have "\<not> a < maxAttempts (retryConfig am)" by simp
  then show ?case by (simp add: loop_exit send_error_def)
next
  case (Suc n)
  have IH: "sendWithRetry_loop e (am\<lparr>am_debounceWindowMs := d\<rparr>) params (a + 1) w' =
            sendWithRetry_loop e am params (a + 1) w'" for w'
    using Suc.hyps(2) by (intro Suc.hyps(1)) simp
  have se: "send_error (am\<lparr>am_debounceWindowMs := d\<rparr>) = send_error am"
    by (intro ext) (simp add: send_error_def)
  have rd: "retry_delay (am\<lparr>am_debounceWindowMs := d\<rparr>) = retry_delay am"
    by (intro ext) (simp add: retry_delay_def)
  show ?case
    by (subst (1 2) sendWithRetry_loop.simps)
       (auto simp: IH se rd mailer_send_def split: outcome.splits option.splits)
qed

lemma all_attempts_transient:
  assumes M: "1 \<le> maxAttempts (retryConfig am)"
    and tr: "\<forall>j<nat (maxAttempts (retryConfig am)).
               transient_failure (mailer e (length (sent w) + j) (retry_message am params))"
  shows "\<exists>m. sendWithRetry_loop e am params 0 w =
           (Err (send_error am ''Failed to send alert email'' (rp_alertType params)
                   (CtxErrorAttempts m (maxAttempts (retryConfig am)))),
            (after_retries am (retry_message am params) 0 (nat (maxAttempts (retryConfig am) - 1)) w)
              \<lparr>sent := sent w @ replicate (nat (maxAttempts (retryConfig am))) (retry_message am params)\<rparr>)"
proof -
  let ?M = "maxAttempts (retryConfig am)"
  let ?n = "nat (?M - 1)"
  let ?msg = "retry_message am params"
  let ?w' = "after_retries am ?msg 0 ?n w"
  have n: "int ?n = ?M - 1" using M by simp
  have "sendWithRetry_loop e am params 0 w = sendWithRetry_loop e am params (0 + int ?n) ?w'"
    using M tr by (intro loop_retries) auto
  then have 1: "sendWithRetry_loop e am params 0 w = sendWithRetry_loop e am params (?M - 1) ?w'"
    using n by simp
  have "?n < nat ?M" using M by simp
  with tr have "transient_failure (mailer e (length (sent w) + ?n) ?msg)" by blast
  then have "transient_failure (mailer e (length (sent ?w')) ?msg)"
    by (simp add: sent_after_retries)
  from loop_last_transient [OF refl this]
  obtain m where "sendWithRetry_loop e am params (?M - 1) ?w' =
      (Err (send_error am ''Failed to send alert email'' (rp_alertType params)
              (CtxErrorAttempts m ?M)), ?w'\<lparr>sent := sent ?w' @ [?msg]\<rparr>)"
    by blast
  moreover have "sent ?w' @ [?msg] = sent w @ replicate (nat ?M) ?msg"
  proof -
    have "nat ?M = Suc ?n" using M by simp
    then show ?thesis by (simp add: sent_after_retries replicate_append_same)
  qed
  ultimately show ?thesis using 1 by auto
qed

lemma last_attempt_succeeds:
  assumes M: "1 \<le> maxAttempts (retryConfig am)"
    and tr: "\<forall>j<nat (maxAttempts (retryConfig am) - 1).
               transient_failure (mailer e (length (sent w) + j) (retry_message am params))"
    and ok: "success_with i (mailer e (length (sent w) + nat (maxAttempts (retryConfig am) - 1))
                               (retry_message am params))"
  shows "\<exists>ts. fst (sendWithRetry_loop e am params 0 w) = Ok \<lparr>email_id = i, sent_timestamp = ts\<rparr>"
proof -
  let ?M = "maxAttempts (retryConfig am)"
  let ?n = "nat (?M - 1)"
  let ?msg = "retry_message am params"
  let ?w' = "after_retries am ?msg 0 ?n w"
  have n: "int ?n = ?M - 1" using M by simp
  have "sendWithRetry_loop e am params 0 w = sendWithRetry_loop e am params (0 + int ?n) ?w'"
    using M tr by (intro loop_retries) auto
  then have 1: "sendWithRetry_loop e am params 0 w = sendWithRetry_loop e am params (?M - 1) ?w'"
    using n by simp
  have "success_with i (mailer e (length (sent ?w')) ?msg)"
    using ok by (simp add: sent_after_retries)
  then have "sendWithRetry_loop e am params (?M - 1) ?w' =
      (Ok \<lparr>email_id = i, sent_timestamp = now ?w'\<rparr>, ?w'\<lparr>sent := sent ?w' @ [?msg]\<rparr>)"
    by (intro loop_success) simp_all
  with 1 show ?thesis by simp
qed

text \<open>
  Claim C10. With \<open>maxAttempts \<le> 0\<close> the loop body of \<open>sendWithRetry\<close> never runs:
  the world is unchanged (no send, no sleep) and the result is the failure after the loop,
  \<open>Failed to send alert email\<close> with the configured attempt count.
\<close>

theorem sendWithRetry_no_attempts:
  assumes "maxAttempts (retryConfig am) \<le> 0"
  shows "sendWithRetry e am params w =
         (Err \<lparr>err_message = ''Failed to send alert email'',
               err_alertType = OfType (rp_alertType params),
               err_recipient = adminEmail (config am),
               err_context = CtxAttempts (maxAttempts (retryConfig am))\<rparr>, w)"
  using assms by (simp add: sendWithRetry_def loop_exit send_error_def)

theorem sendWithRetry_no_attempts_witness:
  "maxAttempts (retryConfig ex_am0) \<le> 0 \<and>
   sendWithRetry env_ok ex_am0 ex_params ex_world =
     (Err \<lparr>err_message = ''Failed to send alert email'', err_alertType = OfType JOB_FAILURE,
           err_recipient = ''admin@lec.test'', err_context = CtxAttempts 0\<rparr>, ex_world)"
proof -
  have a: "maxAttempts (retryConfig ex_am0) \<le> 0" by (simp add: ex_am0_simps)
  show ?thesis
    using sendWithRetry_no_attempts [OF a, of env_ok ex_params ex_world] a
    by (simp add: ex_am0_simps ex_params_def)
qed

text \<open>
  Claim C4, as amended. When the send of attempt \<open>attempt\<close> fails transiently and
  attempts remain, the loop sleeps \<open>delays[attempt]\<close> if the list has that index and
  1000 ms otherwise, then sends again: the sleep is the next entry of the sleep trace and a
  second send follows.
\<close>

theorem retry_sleeps_configured_delay_or_default:
  assumes "0 \<le> attempt" and "attempt < maxAttempts (retryConfig am) - 1"
    and "transient_failure (mailer e (length (sent w)) (retry_message am params))"
  shows "retry_delay am attempt =
           (if nat attempt < length (delays (retryConfig am))
            then delays (retryConfig am) ! nat attempt else 1000) \<and>
         sendWithRetry_loop e am params attempt w =
           sendWithRetry_loop e am params (attempt + 1)
             (sleep (retry_delay am attempt) (w\<lparr>sent := sent w @ [retry_message am params]\<rparr>)) \<and>
         prefix (slept w @ [retry_delay am attempt])
           (slept (snd (sendWithRetry_loop e am params attempt w))) \<and>
         prefix (sent w @ [retry_message am params, retry_message am params])
           (sent (snd (sendWithRetry_loop e am params attempt w)))"
proof -
  let ?w1 = "sleep (retry_delay am attempt) (w\<lparr>sent := sent w @ [retry_message am params]\<rparr>)"
  have step: "sendWithRetry_loop e am params attempt w =
              sendWithRetry_loop e am params (attempt + 1) ?w1"
    using assms(2,3) by (rule loop_retry_step)
  have "prefix (slept ?w1) (slept (snd (sendWithRetry_loop e am params (attempt + 1) ?w1)))"
    using loop_grows by blast
  then have sl: "prefix (slept w @ [retry_delay am attempt])
           (slept (snd (sendWithRetry_loop e am params attempt w)))"
    using step by (simp add: sleep_def)
  have "prefix (sent ?w1 @ [retry_message am params])
          (sent (snd (sendWithRetry_loop e am params (attempt + 1) ?w1)))"
    using assms(2) by (intro loop_sends_once) simp
  then have se: "prefix (sent w @ [retry_message am params, retry_message am params])
           (sent (snd (sendWithRetry_loop e am params attempt w)))"
    using step by (simp add: sleep_def)
  show ?thesis using assms(1) step sl se by (simp add: retry_delay_def)
qed

theorem retry_sleeps_configured_delay_or_default_witness:
  "(0::int) \<le> 3 \<and> 3 < maxAttempts (retryConfig ex_am5) - 1 \<and>
   transient_failure (mailer env_down (length (sent ex_world)) (retry_message ex_am5 ex_params)) \<and>
   retry_delay ex_am5 3 = 1000 \<and>
   prefix (slept ex_world @ [1000])
     (slept (snd (sendWithRetry_loop env_down ex_am5 ex_params 3 ex_world)))"
proof -
  have a: "(0::int) \<le> 3" by simp
  have b: "3 < maxAttempts (retryConfig ex_am5) - 1" by (simp add: ex_am5_simps)
  have c: "transient_failure
             (mailer env_down (length (sent ex_world)) (retry_message ex_am5 ex_params))"
    by (simp add: env_down_def transient_unavailable)
  note t = retry_sleeps_configured_delay_or_default [OF a b c]
  have d: "retry_delay ex_am5 3 = 1000"
    using t by (simp add: ex_am5_simps)
  have "prefix (slept ex_world @ [retry_delay ex_am5 3])
          (slept (snd (sendWithRetry_loop env_down ex_am5 ex_params 3 ex_world)))"
    using t by blast
  with d have "prefix (slept ex_world @ [1000])
          (slept (snd (sendWithRetry_loop env_down ex_am5 ex_params 3 ex_world)))"
    by simp
  with a b c d show ?thesis by blast
qed

text \<open>
  Claim C4 as stated fails: with five attempts and the delays 1000, 2000, 4000, the retry
  after attempt index 3 (past the end of the list) sleeps 1000 ms, not the last configured
  delay of 4000 ms.
\<close>

theorem retry_delay_past_list_counterexample:
  "int (length (delays (retryConfig ex_am5))) \<le> 3 \<and>
   (3::int) < maxAttempts (retryConfig ex_am5) - 1 \<and>
   slept (snd (sendWithRetry env_down ex_am5 ex_params ex_world)) = [1000, 2000, 4000, 1000] \<and>
   slept (snd (sendWithRetry env_down ex_am5 ex_params ex_world)) ! 3
     \<noteq> last (delays (retryConfig ex_am5))"
  by code_simp

section \<open>Sending alerts\<close>

lemma sendAlerts_sender:
  assumes "sender_of am opt_from = Some f" "f \<noteq> []"
    and "render e alerts ty sev = Returns body"
  shows "sendAlerts e am alerts ty sev opt_from w =
         sendWithRetry_loop e am
           \<lparr>rp_subject = getAlertSubject sev ty, rp_html = body, rp_alertType = ty,
            rp_fromEmail = f\<rparr> 0
           (w\<lparr>rendered := rendered w @ [(alerts, ty, sev)]\<rparr>)"
  using assms
  by (auto simp: sendAlerts_def sender_of_def falsy_def call_render_def sendWithRetry_def Let_def
           split: option.splits)

lemma sendAlerts_ignores_debounce:
  "sendAlerts e (am\<lparr>am_debounceWindowMs := d\<rparr>) alerts ty sev opt_from w =
   sendAlerts e am alerts ty sev opt_from w"
  by (auto simp: sendAlerts_def sendWithRetry_def loop_ignores_debounce Let_def call_render_def
           split: outcome.splits option.splits)

lemma sendAlerts_frame:
  "failureHistory (snd (sendAlerts e am alerts ty sev opt_from w)) = failureHistory w"
  "am_instance (snd (sendAlerts e am alerts ty sev opt_from w)) = am_instance w"
  by (auto simp: sendAlerts_def sendWithRetry_def call_render_def loop_frame Let_def
           split: outcome.splits)

lemma sendAlerts_rendered:
  "rendered (snd (sendAlerts e am alerts ty sev opt_from w)) =
     (if falsy (sender_of am opt_from) then rendered w else rendered w @ [(alerts, ty, sev)])"
  by (auto simp: sendAlerts_def sendWithRetry_def call_render_def loop_frame Let_def sender_of_def
           split: outcome.splits)

lemma sendAlert_frame:
  "failureHistory (snd (sendAlert e am a opt_from w)) = failureHistory w"
  "am_instance (snd (sendAlert e am a opt_from w)) = am_instance w"
  by (simp_all add: sendAlert_def sendAlerts_frame)

text \<open>
  Claim C2. Let \<open>maxAttempts \<ge> 1\<close>, a sender address be available and the template
  render. If the mailer answers every one of the \<open>maxAttempts\<close> sends with a transient
  error, \<open>sendAlerts\<close> returns the failure \<open>Failed to send alert email\<close> whose attempt
  count is \<open>maxAttempts\<close>, after exactly \<open>maxAttempts\<close> sends. If the sends before the
  last allowed one fail transiently and the last one (attempt index \<open>maxAttempts - 1\<close>) is
  answered with a message id, \<open>sendAlerts\<close> returns a success carrying that id.
\<close>

theorem sendAlerts_retry_outcomes:
  assumes "1 \<le> maxAttempts (retryConfig am)"
    and "sender_of am opt_from = Some f" and "f \<noteq> []"
    and "render e alerts ty sev = Returns body"
  shows "((\<forall>j<nat (maxAttempts (retryConfig am)). \<forall>p.
             transient_failure (mailer e (length (sent w) + j) p)) \<longrightarrow>
          (\<exists>m. fst (sendAlerts e am alerts ty sev opt_from w) =
                 Err \<lparr>err_message = ''Failed to send alert email'', err_alertType = OfType ty,
                      err_recipient = adminEmail (config am),
                      err_context = CtxErrorAttempts m (maxAttempts (retryConfig am))\<rparr>) \<and>
          length (sent (snd (sendAlerts e am alerts ty sev opt_from w))) =
            length (sent w) + nat (maxAttempts (retryConfig am))) \<and>
         ((\<forall>j<nat (maxAttempts (retryConfig am) - 1). \<forall>p.
             transient_failure (mailer e (length (sent w) + j) p)) \<and>
          (\<forall>p. success_with i
                  (mailer e (length (sent w) + nat (maxAttempts (retryConfig am) - 1)) p)) \<longrightarrow>
          (\<exists>ts. fst (sendAlerts e am alerts ty sev opt_from w) =
                  Ok \<lparr>email_id = i, sent_timestamp = ts\<rparr>))"
proof (intro conjI impI)
  let ?params = "\<lparr>rp_subject = getAlertSubject sev ty, rp_html = body, rp_alertType = ty,
                   rp_fromEmail = f\<rparr>"
  let ?w1 = "w\<lparr>rendered := rendered w @ [(alerts, ty, sev)]\<rparr>"
  note eq = sendAlerts_sender [OF assms(2-4), of w]
  {
    assume tr: "\<forall>j<nat (maxAttempts (retryConfig am)). \<forall>p.
                  transient_failure (mailer e (length (sent w) + j) p)"
    then have "\<forall>j<nat (maxAttempts (retryConfig am)).
                 transient_failure (mailer e (length (sent ?w1) + j) (retry_message am ?params))"
      by simp
    from all_attempts_transient [OF assms(1) this] obtain m where
      r: "sendWithRetry_loop e am ?params 0 ?w1 =
           (Err (send_error am ''Failed to send alert email'' (rp_alertType ?params)
                   (CtxErrorAttempts m (maxAttempts (retryConfig am)))),
            (after_retries am (retry_message am ?params) 0 (nat (maxAttempts (retryConfig am) - 1)) ?w1)
              \<lparr>sent := sent ?w1 @ replicate (nat (maxAttempts (retryConfig am))) (retry_message am ?params)\<rparr>)"
      by blast
    show "\<exists>m. fst (sendAlerts e am alerts ty sev opt_from w) =
                 Err \<lparr>err_message = ''Failed to send alert email'', err_alertType = OfType ty,
                      err_recipient = adminEmail (config am),
                      err_context = CtxErrorAttempts m (maxAttempts (retryConfig am))\<rparr>"
      using r eq by (auto simp: send_error_def)
    show "length (sent (snd (sendAlerts e am alerts ty sev opt_from w))) =
            length (sent w) + nat (maxAttempts (retryConfig am))"
      using r eq by simp
  }
  {
    assume h: "(\<forall>j<nat (maxAttempts (retryConfig am) - 1). \<forall>p.
             transient_failure (mailer e (length (sent w) + j) p)) \<and>
          (\<forall>p. success_with i
                  (mailer e (length (sent w) + nat (maxAttempts (retryConfig am) - 1)) p))"
    have "\<exists>ts. fst (sendWithRetry_loop e am ?params 0 ?w1) = Ok \<lparr>email_id = i, sent_timestamp = ts\<rparr>"
      using h by (intro last_attempt_succeeds [OF assms(1)]) simp_all
    then show "\<exists>ts. fst (sendAlerts e am alerts ty sev opt_from w) =
                  Ok \<lparr>email_id = i, sent_timestamp = ts\<rparr>"
      using eq by simp
  }
qed

theorem sendAlerts_retry_outcomes_witness:
  "1 \<le> maxAttempts (retryConfig ex_am) \<and>
   (\<exists>m. fst (sendAlerts env_down ex_am [ex_alert ''a'' 0] JOB_FAILURE CRITICAL None ex_world) =
           Err \<lparr>err_message = ''Failed to send alert email'', err_alertType = OfType JOB_FAILURE,
                err_recipient = ''admin@lec.test'', err_context = CtxErrorAttempts m 3\<rparr>) \<and>
   length (sent (snd (sendAlerts env_down ex_am [ex_alert ''a'' 0] JOB_FAILURE CRITICAL None ex_world))) = 3 \<and>
   (\<exists>ts. fst (sendAlerts (env_flaky 2) ex_am [ex_alert ''a'' 0] JOB_FAILURE CRITICAL None ex_world) =
           Ok \<lparr>email_id = ''<m1@lec.test>'', sent_timestamp = ts\<rparr>)"
proof -
  have M: "1 \<le> maxAttempts (retryConfig ex_am)" by (simp add: ex_am_simps)
  have s: "sender_of ex_am None = Some ''alerts@lec.test''" "''alerts@lec.test'' \<noteq> []"
    by (simp_all add: sender_of_def ex_am_simps)
  have r1: "render env_down [ex_alert ''a'' 0] JOB_FAILURE CRITICAL = Returns ''a''"
    by (simp add: env_down_def ex_render_def ex_alert_def)
  have r2: "render (env_flaky 2) [ex_alert ''a'' 0] JOB_FAILURE CRITICAL = Returns ''a''"
    by (simp add: env_flaky_def ex_render_def ex_alert_def)
  have d: "\<forall>j<nat (maxAttempts (retryConfig ex_am)). \<forall>p.
             transient_failure (mailer env_down (length (sent ex_world) + j) p)"
    by (simp add: env_down_def transient_unavailable)
  have f: "(\<forall>j<nat (maxAttempts (retryConfig ex_am) - 1). \<forall>p.
             transient_failure (mailer (env_flaky 2) (length (sent ex_world) + j) p)) \<and>
          (\<forall>p. success_with ''<m1@lec.test>''
                  (mailer (env_flaky 2) (length (sent ex_world) + nat (maxAttempts (retryConfig ex_am) - 1)) p))"
    by (simp add: env_flaky_def ex_am_simps ex_world_def transient_unavailable success_delivered)
  show ?thesis
    using sendAlerts_retry_outcomes [OF M s r1, of ex_world] sendAlerts_retry_outcomes [OF M s r2, of ex_world "''<m1@lec.test>''"] d f M
    by (simp add: ex_am_simps ex_world_simps)
qed

text \<open>
  Claim C8. With no sender address in the configuration and none in the options,
  \<open>sendAlerts\<close> and \<open>sendAlert\<close> return the failure \<open>No from email provided\<close> and leave
  the world as it was: nothing is rendered, nothing is sent, nothing is slept.
\<close>

theorem sendAlerts_no_sender:
  assumes "opt_from = None" and "fromEmail (config am) = None"
  shows "sendAlerts e am alerts ty sev opt_from w =
           (Err \<lparr>err_message = ''No from email provided'', err_alertType = OfType ty,
                 err_recipient = adminEmail (config am),
                 err_context = CtxText ''Provide fromEmail in config or pass it in options''\<rparr>, w) \<and>
         sendAlert e am a opt_from w =
           (Err \<lparr>err_message = ''No from email provided'', err_alertType = OfType (type a),
                 err_recipient = adminEmail (config am),
                 err_context = CtxText ''Provide fromEmail in config or pass it in options''\<rparr>, w)"
  using assms by (simp add: sendAlert_def sendAlerts_def falsy_def)

theorem sendAlerts_no_sender_witness:
  "fromEmail (config ex_am_nofrom) = None \<and>
   sendAlerts env_ok ex_am_nofrom [ex_alert ''a'' 0] JOB_FAILURE CRITICAL None ex_world =
     (Err \<lparr>err_message = ''No from email provided'', err_alertType = OfType JOB_FAILURE,
           err_recipient = ''admin@lec.test'',
           err_context = CtxText ''Provide fromEmail in config or pass it in options''\<rparr>,
      ex_world)"
proof -
  have a: "fromEmail (config ex_am_nofrom) = None"
    by (simp add: ex_am_nofrom_def new_AlertManager_def ex_config_def)
  have b: "adminEmail (config ex_am_nofrom) = ''admin@lec.test''"
    by (simp add: ex_am_nofrom_def new_AlertManager_def ex_config_def)
  show ?thesis
    using sendAlerts_no_sender [OF refl a, of env_ok "[ex_alert ''a'' 0]" JOB_FAILURE CRITICAL ex_world] a b
    by simp
qed

text \<open>
  Claim C1, as amended. \<open>sendAlert\<close> does not buffer. Its result does not depend on the
  debounce window; whatever it renders is the batch made of its one alert; and with a
  sender address, a template that renders, \<open>maxAttempts \<ge> 1\<close> and a mailer that accepts
  the first send, the call itself makes exactly one send for that alert, without sleeping,
  and returns its message id stamped with the time of the call.
\<close>

theorem sendAlert_sends_at_once:
  "sendAlert e (am\<lparr>am_debounceWindowMs := d\<rparr>) a opt_from w = sendAlert e am a opt_from w \<and>
   (rendered (snd (sendAlert e am a opt_from w)) = rendered w \<or>
    rendered (snd (sendAlert e am a opt_from w)) = rendered w @ [([a], type a, severity a)]) \<and>
   (sender_of am opt_from = Some f \<and> f \<noteq> [] \<and>
    render e [a] (type a) (severity a) = Returns body \<and>
    1 \<le> maxAttempts (retryConfig am) \<and>
    success_with i (mailer e (length (sent w))
      \<lparr>p_from = f, p_to = adminEmail (config am),
       p_subject = getAlertSubject (severity a) (type a), p_html = Some body, p_text = None\<rparr>) \<longrightarrow>
    sendAlert e am a opt_from w =
      (Ok \<lparr>email_id = i, sent_timestamp = now w\<rparr>,
       w\<lparr>rendered := rendered w @ [([a], type a, severity a)],
         sent := sent w @ [\<lparr>p_from = f, p_to = adminEmail (config am),
            p_subject = getAlertSubject (severity a) (type a), p_html = Some body,
            p_text = None\<rparr>]\<rparr>))"
proof (intro conjI impI)
  show "sendAlert e (am\<lparr>am_debounceWindowMs := d\<rparr>) a opt_from w = sendAlert e am a opt_from w"
    by (simp add: sendAlert_def sendAlerts_ignores_debounce)
  show "rendered (snd (sendAlert e am a opt_from w)) = rendered w \<or>
    rendered (snd (sendAlert e am a opt_from w)) = rendered w @ [([a], type a, severity a)]"
    by (simp add: sendAlert_def sendAlerts_rendered)
next
  let ?params = "\<lparr>rp_subject = getAlertSubject (severity a) (type a), rp_html = body,
                   rp_alertType = type a, rp_fromEmail = f\<rparr>"
  let ?w1 = "w\<lparr>rendered := rendered w @ [([a], type a, severity a)]\<rparr>"
  assume h: "sender_of am opt_from = Some f \<and> f \<noteq> [] \<and>
    render e [a] (type a) (severity a) = Returns body \<and>
    1 \<le> maxAttempts (retryConfig am) \<and>
    success_with i (mailer e (length (sent w))
      \<lparr>p_from = f, p_to = adminEmail (config am),
       p_subject = getAlertSubject (severity a) (type a), p_html = Some body, p_text = None\<rparr>)"
  then have eq: "sendAlert e am a opt_from w = sendWithRetry_loop e am ?params 0 ?w1"
    by (simp add: sendAlert_def sendAlerts_sender)
  have "success_with i (mailer e (length (sent ?w1)) (retry_message am ?params))"
    using h by (simp add: retry_message_def)
  moreover have "0 < maxAttempts (retryConfig am)" using h by simp
  ultimately have "sendWithRetry_loop e am ?params 0 ?w1 =
      (Ok \<lparr>email_id = i, sent_timestamp = now ?w1\<rparr>,
       ?w1\<lparr>sent := sent ?w1 @ [retry_message am ?params]\<rparr>)"
    by (intro loop_success)
  then show "sendAlert e am a opt_from w =
      (Ok \<lparr>email_id = i, sent_timestamp = now w\<rparr>,
       w\<lparr>rendered := rendered w @ [([a], type a, severity a)],
         sent := sent w @ [\<lparr>p_from = f, p_to = adminEmail (config am),
            p_subject = getAlertSubject (severity a) (type a), p_html = Some body,
            p_text = None\<rparr>]\<rparr>)"
    using eq by (simp add: retry_message_def)
qed

theorem sendAlert_sends_at_once_witness:
  "sender_of ex_am None = Some ''alerts@lec.test'' \<and>
   1 \<le> maxAttempts (retryConfig ex_am) \<and>
   fst (sendAlert env_ok ex_am (ex_alert ''first'' 0) None ex_world) =
     Ok \<lparr>email_id = ''<m1@lec.test>'', sent_timestamp = 0\<rparr> \<and>
   rendered (snd (sendAlert env_ok ex_am (ex_alert ''first'' 0) None ex_world)) =
     [([ex_alert ''first'' 0], JOB_FAILURE, CRITICAL)] \<and>
   length (sent (snd (sendAlert env_ok ex_am (ex_alert ''first'' 0) None ex_world))) = 1 \<and>
   slept (snd (sendAlert env_ok ex_am (ex_alert ''first'' 0) None ex_world)) = []"
proof -
  have h: "sender_of ex_am None = Some ''alerts@lec.test'' \<and> ''alerts@lec.test'' \<noteq> [] \<and>
    render env_ok [ex_alert ''first'' 0] (type (ex_alert ''first'' 0))
      (severity (ex_alert ''first'' 0)) = Returns ''first'' \<and>
    1 \<le> maxAttempts (retryConfig ex_am) \<and>
    success_with ''<m1@lec.test>'' (mailer env_ok (length (sent ex_world))
      \<lparr>p_from = ''alerts@lec.test'', p_to = adminEmail (config ex_am),
       p_subject = getAlertSubject (severity (ex_alert ''first'' 0)) (type (ex_alert ''first'' 0)),
       p_html = Some ''first'', p_text = None\<rparr>)"
    by (simp add: sender_of_def ex_am_simps env_simps ex_render_def ex_alert_def success_delivered)
  have "sendAlert env_ok ex_am (ex_alert ''first'' 0) None ex_world =
      (Ok \<lparr>email_id = ''<m1@lec.test>'', sent_timestamp = now ex_world\<rparr>,
       ex_world\<lparr>rendered := rendered ex_world @
           [([ex_alert ''first'' 0], type (ex_alert ''first'' 0), severity (ex_alert ''first'' 0))],
         sent := sent ex_world @ [\<lparr>p_from = ''alerts@lec.test'', p_to = adminEmail (config ex_am),
            p_subject = getAlertSubject (severity (ex_alert ''first'' 0)) (type (ex_alert ''first'' 0)),
            p_html = Some ''first'', p_text = None\<rparr>]\<rparr>)"
    using sendAlert_sends_at_once [where e = env_ok and am = ex_am and a = "ex_alert ''first'' 0"
                and opt_from = None and w = ex_world and f = "''alerts@lec.test''"
                and body = "''first''" and i = "''<m1@lec.test>''"] h
    by blast
  then show ?thesis
    using h by (simp add: ex_world_simps ex_alert_def)
qed

text \<open>
  Claim C1 as stated fails: with the default debounce window of 300000 ms, two alerts of
  the category \<open>JOB_FAILURE\<close> arriving 10 ms apart are sent by two sends, each rendered
  from one alert, and the first is out before any time has passed.
\<close>

theorem sendAlert_no_debounce_counterexample:
  "am_debounceWindowMs ex_am = 300000 \<and>
   type (ex_alert ''first'' 0) = type (ex_alert ''second'' 10) \<and>
   length (sent ex_w1) = 1 \<and> now ex_w1 < now ex_world + am_debounceWindowMs ex_am \<and>
   length (sent ex_w2) = 2 \<and>
   rendered ex_w2 = [([ex_alert ''first'' 0], JOB_FAILURE, CRITICAL),
                     ([ex_alert ''second'' 10], JOB_FAILURE, CRITICAL)]"
  by code_simp

section \<open>Sending a custom email\<close>

text \<open>
  Claim C5, as amended. \<open>sendCustomEmail\<close> shares with \<open>sendAlerts\<close> the check of the
  sender address only. Without a sender it returns \<open>No from email provided\<close> and sends
  nothing. With one it makes exactly one send and never sleeps; any error of the mailer,
  transient or not, and any answer without data, gives \<open>Failed to send custom email\<close>
  with the error's message (if there is one) and no attempt count; an answer with data and
  no error gives a success; an exception of the mailer leaves the function.
\<close>

theorem sendCustomEmail_single_send:
  "(falsy (sender_of am (ce_from params)) \<longrightarrow>
      sendCustomEmail e am params w =
        (Returns (Err \<lparr>err_message = ''No from email provided'', err_alertType = CUSTOM,
                       err_recipient = nullish (ce_to params) (adminEmail (config am)),
                       err_context = CtxText ''Provide fromEmail in config or pass it in params''\<rparr>),
         w)) \<and>
   (\<not> falsy (sender_of am (ce_from params)) \<longrightarrow>
      sendCustomEmail e am params w =
        (case mailer e (length (sent w)) (custom_message am params) of
           Throws m \<Rightarrow> Throws m
         | Returns r \<Rightarrow>
             (case error r of
                Some err \<Rightarrow>
                  Returns (Err \<lparr>err_message = ''Failed to send custom email'',
                         err_alertType = CUSTOM,
                         err_recipient = nullish (ce_to params) (adminEmail (config am)),
                         err_context = CtxText (te_message err)\<rparr>)
              | None \<Rightarrow>
                  (case data r of
                     None \<Rightarrow>
                       Returns (Err \<lparr>err_message = ''Failed to send custom email'',
                              err_alertType = CUSTOM,
                              err_recipient = nullish (ce_to params) (adminEmail (config am)),
                              err_context = CtxUndefined\<rparr>)
                   | Some i \<Rightarrow> Returns (Ok \<lparr>email_id = i, sent_timestamp = now w\<rparr>))),
         w\<lparr>sent := sent w @ [custom_message am params]\<rparr>))"
  by (auto simp: sendCustomEmail_def sender_of_def custom_message_def mailer_send_def Let_def
           split: outcome.splits option.splits)

theorem sendCustomEmail_single_send_witness:
  "falsy (sender_of ex_am_nofrom (ce_from ex_custom)) \<and>
   \<not> falsy (sender_of ex_am (ce_from ex_custom)) \<and>
   sendCustomEmail env_ok ex_am_nofrom ex_custom ex_world =
     (Returns (Err \<lparr>err_message = ''No from email provided'', err_alertType = CUSTOM,
                   err_recipient = ''admin@lec.test'',
                   err_context = CtxText ''Provide fromEmail in config or pass it in params''\<rparr>),
      ex_world) \<and>
   sendCustomEmail env_down ex_am ex_custom ex_world =
     (Returns (Err \<lparr>err_message = ''Failed to send custom email'', err_alertType = CUSTOM,
                   err_recipient = ''admin@lec.test'',
                   err_context = CtxText ''Service unavailable''\<rparr>),
      ex_world\<lparr>sent := [custom_message ex_am ex_custom]\<rparr>) \<and>
   sendCustomEmail env_nodata ex_am ex_custom ex_world =
     (Returns (Err \<lparr>err_message = ''Failed to send custom email'', err_alertType = CUSTOM,
                   err_recipient = ''admin@lec.test'', err_context = CtxUndefined\<rparr>),
      ex_world\<lparr>sent := [custom_message ex_am ex_custom]\<rparr>) \<and>
   sendCustomEmail env_ok ex_am ex_custom ex_world =
     (Returns (Ok \<lparr>email_id = ''<m1@lec.test>'', sent_timestamp = 0\<rparr>),
      ex_world\<lparr>sent := [custom_message ex_am ex_custom]\<rparr>)"
proof -
  have a: "falsy (sender_of ex_am_nofrom (ce_from ex_custom))"
    by (simp add: falsy_def sender_of_def ex_custom_def ex_am_nofrom_simps)
  have b: "\<not> falsy (sender_of ex_am (ce_from ex_custom))"
    by (simp add: falsy_def sender_of_def ex_custom_def ex_am_simps)
  have r: "nullish (ce_to ex_custom) (adminEmail (config ex_am)) = ''admin@lec.test''"
          "nullish (ce_to ex_custom) (adminEmail (config ex_am_nofrom)) = ''admin@lec.test''"
    by (simp_all add: nullish_def ex_custom_def ex_am_simps ex_am_nofrom_simps)
  have 1: "sendCustomEmail env_ok ex_am_nofrom ex_custom ex_world =
     (Returns (Err \<lparr>err_message = ''No from email provided'', err_alertType = CUSTOM,
                   err_recipient = ''admin@lec.test'',
                   err_context = CtxText ''Provide fromEmail in config or pass it in params''\<rparr>),
      ex_world)"
    using sendCustomEmail_single_send [of ex_am_nofrom ex_custom env_ok ex_world] a by (simp add: r)
  have 2: "sendCustomEmail env_down ex_am ex_custom ex_world =
     (Returns (Err \<lparr>err_message = ''Failed to send custom email'', err_alertType = CUSTOM,
                   err_recipient = ''admin@lec.test'',
                   err_context = CtxText ''Service unavailable''\<rparr>),
      ex_world\<lparr>sent := [custom_message ex_am ex_custom]\<rparr>)"
    using sendCustomEmail_single_send [of ex_am ex_custom env_down ex_world] b
    by (simp add: r env_simps unavailable_def ex_world_simps)
  have 3: "sendCustomEmail env_nodata ex_am ex_custom ex_world =
     (Returns (Err \<lparr>err_message = ''Failed to send custom email'', err_alertType = CUSTOM,
                   err_recipient = ''admin@lec.test'', err_context = CtxUndefined\<rparr>),
      ex_world\<lparr>sent := [custom_message ex_am ex_custom]\<rparr>)"
    using sendCustomEmail_single_send [of ex_am ex_custom env_nodata ex_world] b
    by (simp add: r env_nodata_def ex_world_simps)
  have 4: "sendCustomEmail env_ok ex_am ex_custom ex_world =
     (Returns (Ok \<lparr>email_id = ''<m1@lec.test>'', sent_timestamp = 0\<rparr>),
      ex_world\<lparr>sent := [custom_message ex_am ex_custom]\<rparr>)"
    using sendCustomEmail_single_send [of ex_am ex_custom env_ok ex_world] b
    by (simp add: r env_simps delivered_def ex_world_simps)
  show ?thesis using a b 1 2 3 4 by blast
qed

text \<open>
  Claim C5 as stated fails: against a mailer that answers the first send with status 503
  and delivers the second, with three attempts allowed, \<open>sendAlerts\<close> sleeps 1000 ms,
  sends again and succeeds, while \<open>sendCustomEmail\<close> sends once, does not sleep and
  returns a failure.
\<close>

theorem sendCustomEmail_no_retry_counterexample:
  "transient_failure (mailer (env_flaky 1) 0 (custom_message ex_am ex_custom)) \<and>
   1 < maxAttempts (retryConfig ex_am) \<and>
   fst (sendAlerts (env_flaky 1) ex_am [ex_alert ''a'' 0] JOB_FAILURE CRITICAL None ex_world) =
     Ok \<lparr>email_id = ''<m1@lec.test>'', sent_timestamp = 1000\<rparr> \<and>
   length (sent (snd (sendAlerts (env_flaky 1) ex_am [ex_alert ''a'' 0] JOB_FAILURE CRITICAL None
                        ex_world))) = 2 \<and>
   slept (snd (sendAlerts (env_flaky 1) ex_am [ex_alert ''a'' 0] JOB_FAILURE CRITICAL None
                 ex_world)) = [1000] \<and>
   fst (sendCustomEmail (env_flaky 1) ex_am ex_custom ex_world) =
     Returns (Err \<lparr>err_message = ''Failed to send custom email'', err_alertType = CUSTOM,
                   err_recipient = ''admin@lec.test'',
                   err_context = CtxText ''Service unavailable''\<rparr>) \<and>
   length (sent (snd (sendCustomEmail (env_flaky 1) ex_am ex_custom ex_world))) = 1 \<and>
   slept (snd (sendCustomEmail (env_flaky 1) ex_am ex_custom ex_world)) = []"
  by code_simp

section \<open>The failure detector\<close>

lemma trackJobFailure_below:
  assumes "\<not> failuresInWindow th \<le> int (length (recent_failures th wn w))"
  shows "trackJobFailure e th jobId wn err w =
           (Returns (), w\<lparr>failureHistory := (failureHistory w)(wn \<mapsto> recent_failures th wn w)\<rparr>)"
  using assms by (simp add: trackJobFailure_def recent_failures_def Let_def del: filter_append)

lemma trackJobFailure_reached:
  assumes "failuresInWindow th \<le> int (length (recent_failures th wn w))"
    and "am_instance w = Some am"
  shows "trackJobFailure e th jobId wn err w =
           (Returns (),
            (snd (sendAlert e am
                    (repeated_failures_alert th jobId wn err (now w)
                       (int (length (recent_failures th wn w))))
                    None
                    (w\<lparr>failureHistory := (failureHistory w)(wn \<mapsto> recent_failures th wn w)\<rparr>)))
              \<lparr>failureHistory := (failureHistory w)(wn \<mapsto> [])\<rparr>)"
  using assms
  by (simp add: trackJobFailure_def recent_failures_def Let_def getInstance_def sendAlert_frame
           case_prod_beta del: filter_append)

lemma trackJobFailure_uninitialised:
  assumes "failuresInWindow th \<le> int (length (recent_failures th wn w))"
    and "am_instance w = None"
  shows "\<exists>m. trackJobFailure e th jobId wn err w =
           (Throws m, w\<lparr>failureHistory := (failureHistory w)(wn \<mapsto> recent_failures th wn w)\<rparr>)"
  using assms
  by (simp add: trackJobFailure_def recent_failures_def Let_def getInstance_def del: filter_append)

lemma trackJobFailure_completed:
  assumes "trackJobFailure e th jobId wn err w = (Returns u, w')"
  shows "(int (length (recent_failures th wn w)) < failuresInWindow th \<and>
          history_of w' wn = recent_failures th wn w) \<or>
         (failuresInWindow th \<le> int (length (recent_failures th wn w)) \<and> history_of w' wn = [])"
proof (cases "failuresInWindow th \<le> int (length (recent_failures th wn w))")
  case False
  with assms trackJobFailure_below [OF False, of e jobId err] show ?thesis
    by (auto simp: history_of_def)
next
  case True
  show ?thesis
  proof (cases "am_instance w")
    case None
    with assms trackJobFailure_uninitialised [OF True None, of e jobId err] show ?thesis by auto
  next
    case (Some am)
    with assms trackJobFailure_reached [OF True Some, of e jobId err] True show ?thesis
      by (auto simp: history_of_def)
  qed
qed

lemma report_failures_append:
  "report_failures e th wn (rs @ rs') w =
   report_failures e th wn rs' (report_failures e th wn rs w)"
  by (induction rs arbitrary: w) auto

lemma filter_trim:
  fixes c1 :: int
  assumes "c1 \<le> c2"
  shows "filter (\<lambda>x. c2 \<le> x) (filter (\<lambda>x. c1 \<le> x) xs) = filter (\<lambda>x. c2 \<le> x) xs"
  using assms by (induction xs) auto

lemma recent_failures_at:
  "recent_failures th wn (w\<lparr>now := t\<rparr>) =
   filter (\<lambda>x. t - timeWindowMinutes th * 60 * 1000 \<le> x) (history_of w wn @ [t])"
  by (simp add: recent_failures_def history_of_def del: filter_append)

lemma quiet_reports:
  assumes "sorted (map fst rs)"
    and "\<forall>k<length rs.
           int (window_count th (history_of w wn @ take (Suc k) (map fst rs)) (map fst rs ! k))
             < failuresInWindow th"
  shows "sent (report_failures e th wn rs w) = sent w \<and>
         slept (report_failures e th wn rs w) = slept w \<and>
         rendered (report_failures e th wn rs w) = rendered w \<and>
         am_instance (report_failures e th wn rs w) = am_instance w \<and>
         (\<forall>c. (\<forall>u\<in>set rs. fst u - timeWindowMinutes th * 60 * 1000 \<le> c) \<longrightarrow>
              filter (\<lambda>x. c \<le> x) (history_of (report_failures e th wn rs w) wn) =
              filter (\<lambda>x. c \<le> x) (history_of w wn @ map fst rs))"
  using assms
proof (induction rs rule: rev_induct)
  case Nil
  then show ?case by simp
next
  case (snoc r rs)
  obtain t jobId err where r: "r = (t, jobId, err)" by (cases r)
  let ?W = "timeWindowMinutes th * 60 * 1000"
  let ?wp = "report_failures e th wn rs w"
  let ?h = "history_of w wn"
  have sorted_rs: "sorted (map fst rs)" and later: "\<forall>u\<in>set rs. fst u \<le> t"
    using snoc.prems(1) r by (auto simp: sorted_append)
  have quiet_rs: "\<forall>k<length rs.
           int (window_count th (?h @ take (Suc k) (map fst rs)) (map fst rs ! k))
             < failuresInWindow th"
  proof (intro allI impI)
    fix k assume k: "k < length rs"
    then have "k < length (rs @ [r])" by simp
    with snoc.prems(2) have
      "int (window_count th (?h @ take (Suc k) (map fst (rs @ [r]))) (map fst (rs @ [r]) ! k))
         < failuresInWindow th" by blast
    moreover have "take (Suc k) (map fst (rs @ [r])) = take (Suc k) (map fst rs)"
      using k by simp
    moreover have "map fst (rs @ [r]) ! k = map fst rs ! k"
      using k by (simp add: nth_append)
    ultimately show "int (window_count th (?h @ take (Suc k) (map fst rs)) (map fst rs ! k))
             < failuresInWindow th" by simp
  qed
  note IH = snoc.IH [OF sorted_rs quiet_rs]
  have trim: "filter (\<lambda>x. t - ?W \<le> x) (history_of ?wp wn) =
              filter (\<lambda>x. t - ?W \<le> x) (?h @ map fst rs)"
    using IH later by simp
  have rec: "recent_failures th wn (?wp\<lparr>now := t\<rparr>) =
             filter (\<lambda>x. t - ?W \<le> x) (?h @ map fst rs @ [t])"
    using trim by (simp add: recent_failures_at)
  have "length rs < length (rs @ [r])" by simp
  with snoc.prems(2) have
    "int (window_count th (?h @ take (Suc (length rs)) (map fst (rs @ [r])))
               (map fst (rs @ [r]) ! length rs)) < failuresInWindow th"
    by blast
  then have below: "\<not> failuresInWindow th \<le> int (length (recent_failures th wn (?wp\<lparr>now := t\<rparr>)))"
    using rec r by (simp add: window_count_def nth_append)
  have step: "report_failures e th wn (rs @ [r]) w =
        ?wp\<lparr>now := t, failureHistory := (failureHistory ?wp)
               (wn \<mapsto> filter (\<lambda>x. t - ?W \<le> x) (?h @ map fst rs @ [t]))\<rparr>"
    using trackJobFailure_below [OF below, of e jobId err] rec r
    by (simp add: report_failures_append)
  have hist: "history_of (report_failures e th wn (rs @ [r]) w) wn =
              filter (\<lambda>x. t - ?W \<le> x) (?h @ map fst rs @ [t])"
    by (simp add: step history_of_def)
  have "filter (\<lambda>x. c \<le> x) (history_of (report_failures e th wn (rs @ [r]) w) wn) =
        filter (\<lambda>x. c \<le> x) (?h @ map fst (rs @ [r]))"
    if "\<forall>u\<in>set (rs @ [r]). fst u - ?W \<le> c" for c
  proof -
    have "t - ?W \<le> c" using that r by simp
    then have "filter (\<lambda>x. c \<le> x) (filter (\<lambda>x. t - ?W \<le> x) (?h @ map fst rs @ [t])) =
               filter (\<lambda>x. c \<le> x) (?h @ map fst rs @ [t])"
      by (rule filter_trim)
    then show ?thesis
      unfolding hist using r by (simp del: filter_append filter_filter)
  qed
  then show ?case using IH by (simp add: step)
qed

lemma last_report:
  assumes "sorted (map fst rs @ [t])"
    and "\<forall>k<length rs.
           int (window_count th (history_of w wn @ take (Suc k) (map fst rs)) (map fst rs ! k))
             < failuresInWindow th"
  shows "recent_failures th wn ((report_failures e th wn rs w)\<lparr>now := t\<rparr>) =
         filter (\<lambda>x. t - timeWindowMinutes th * 60 * 1000 \<le> x) (history_of w wn @ map fst rs @ [t])"
proof -
  have s: "sorted (map fst rs)" and later: "\<forall>u\<in>set rs. fst u \<le> t"
    using assms(1) by (auto simp: sorted_append)
  note q = quiet_reports [OF s assms(2), of e]
  have "filter (\<lambda>x. t - timeWindowMinutes th * 60 * 1000 \<le> x)
          (history_of (report_failures e th wn rs w) wn) =
        filter (\<lambda>x. t - timeWindowMinutes th * 60 * 1000 \<le> x) (history_of w wn @ map fst rs)"
    using q later by simp
  then show ?thesis by (simp add: recent_failures_at)
qed

text \<open>
  Claim C6. Let the alert manager be initialised and a worker report failures in time
  order, on top of any stored history. As long as the count of the trailing window, taken
  over the stored and the reported timestamps, stays below the threshold, nothing is
  rendered or sent. The report that brings the count to the threshold hands exactly one
  alert to \<open>sendAlert\<close>: of type \<open>REPEATED_FAILURES\<close>, severity \<open>HIGH\<close>, carrying that
  count, the window size, the job id and the error of the report. The worker's history is
  then the empty list, so that the count read right afterwards is 0.
\<close>

theorem trackJobFailure_escalates_and_resets:
  assumes "am_instance w = Some am"
    and "sorted (map fst rs @ [t])"
    and "\<forall>k<length rs.
           int (window_count th (history_of w wn @ take (Suc k) (map fst rs)) (map fst rs ! k))
             < failuresInWindow th"
    and "failuresInWindow th \<le> int (window_count th (history_of w wn @ map fst rs @ [t]) t)"
  shows "let n = int (window_count th (history_of w wn @ map fst rs @ [t]) t);
             alert = repeated_failures_alert th jobId wn err t n;
             w0 = report_failures e th wn rs w;
             w' = report_failures e th wn (rs @ [(t, jobId, err)]) w
         in rendered w0 = rendered w \<and> sent w0 = sent w \<and>
            trackJobFailure e th jobId wn err (w0\<lparr>now := t\<rparr>) =
              (Returns (),
               (snd (sendAlert e am alert None
                       (w0\<lparr>now := t, failureHistory := (failureHistory w0)
                           (wn \<mapsto> filter (\<lambda>x. t - timeWindowMinutes th * 60 * 1000 \<le> x)
                                   (history_of w wn @ map fst rs @ [t]))\<rparr>)))
                 \<lparr>failureHistory := (failureHistory w0)(wn \<mapsto> [])\<rparr>) \<and>
            type alert = REPEATED_FAILURES \<and> severity alert = HIGH \<and>
            alert_context alert =
              [(''failureCount'', CNum n), (''timeWindowMinutes'', CNum (timeWindowMinutes th)),
               (''jobId'', CStr jobId), (''error'', CStr err)] \<and>
            rendered w' =
              (if falsy (fromEmail (config am)) then rendered w
               else rendered w @ [([alert], REPEATED_FAILURES, HIGH)]) \<and>
            history_of w' wn = [] \<and> getFailureCount th wn w' = 0"
proof -
  let ?W = "timeWindowMinutes th * 60 * 1000"
  let ?w0 = "report_failures e th wn rs w"
  let ?wl = "?w0\<lparr>now := t\<rparr>"
  let ?rf = "filter (\<lambda>x. t - ?W \<le> x) (history_of w wn @ map fst rs @ [t])"
  let ?n = "int (window_count th (history_of w wn @ map fst rs @ [t]) t)"
  let ?alert = "repeated_failures_alert th jobId wn err t ?n"
  let ?w' = "report_failures e th wn (rs @ [(t, jobId, err)]) w"
  have s: "sorted (map fst rs)" using assms(2) by (auto simp: sorted_append)
  note q = quiet_reports [OF s assms(3), of e]
  have rec: "recent_failures th wn ?wl = ?rf"
    by (rule last_report [OF assms(2,3)])
  have n: "int (length (recent_failures th wn ?wl)) = ?n"
    by (simp add: rec window_count_def)
  have reached: "failuresInWindow th \<le> int (length (recent_failures th wn ?wl))"
    using assms(4) n by simp
  have inst: "am_instance ?wl = Some am" using q assms(1) by simp
  have call: "trackJobFailure e th jobId wn err ?wl =
      (Returns (),
       (snd (sendAlert e am ?alert None
               (?w0\<lparr>now := t, failureHistory := (failureHistory ?w0)(wn \<mapsto> ?rf)\<rparr>)))
         \<lparr>failureHistory := (failureHistory ?w0)(wn \<mapsto> [])\<rparr>)"
    using trackJobFailure_reached [OF reached inst, of e jobId err]
    by (simp add: rec window_count_def del: filter_append)
  have w': "?w' = snd (trackJobFailure e th jobId wn err ?wl)"
    by (simp add: report_failures_append)
  have r: "rendered ?w' =
              (if falsy (fromEmail (config am)) then rendered w
               else rendered w @ [([?alert], REPEATED_FAILURES, HIGH)])"
    using q by (simp add: w' call sendAlert_def sendAlerts_rendered sender_of_def
                  repeated_failures_alert_def)
  have h: "history_of ?w' wn = []"
    by (simp add: w' call history_of_def)
  then have c: "getFailureCount th wn ?w' = 0"
    by (simp add: getFailureCount_def)
  have a: "type ?alert = REPEATED_FAILURES \<and> severity ?alert = HIGH \<and>
            alert_context ?alert =
              [(''failureCount'', CNum ?n), (''timeWindowMinutes'', CNum (timeWindowMinutes th)),
               (''jobId'', CStr jobId), (''error'', CStr err)]"
    by (simp add: repeated_failures_alert_def)
  show ?thesis
    unfolding Let_def using q call r h c a by blast
qed

theorem trackJobFailure_escalates_and_resets_witness:
  "am_instance ex_world = Some ex_am \<and>
   sorted (map fst ex_reports @ [40000]) \<and>
   failuresInWindow DEFAULT_THRESHOLDS
     \<le> int (window_count DEFAULT_THRESHOLDS
               (history_of ex_world ''worker-A'' @ map fst ex_reports @ [40000]) 40000) \<and>
   rendered (report_failures env_ok DEFAULT_THRESHOLDS ''worker-A'' ex_reports ex_world) = [] \<and>
   sent (report_failures env_ok DEFAULT_THRESHOLDS ''worker-A'' ex_reports ex_world) = [] \<and>
   rendered (report_failures env_ok DEFAULT_THRESHOLDS ''worker-A''
               (ex_reports @ [(40000, ''job-5'', ''boom'')]) ex_world) =
     [([repeated_failures_alert DEFAULT_THRESHOLDS ''job-5'' ''worker-A'' ''boom'' 40000 5],
       REPEATED_FAILURES, HIGH)] \<and>
   getFailureCount DEFAULT_THRESHOLDS ''worker-A''
     (report_failures env_ok DEFAULT_THRESHOLDS ''worker-A''
        (ex_reports @ [(40000, ''job-5'', ''boom'')]) ex_world) = 0"
proof -
  have th: "failuresInWindow DEFAULT_THRESHOLDS = 5" "timeWindowMinutes DEFAULT_THRESHOLDS = 10"
    by (simp_all add: DEFAULT_THRESHOLDS_def)
  have h: "history_of ex_world ''worker-A'' = []"
    by (simp add: history_of_def ex_world_simps)
  have a: "am_instance ex_world = Some ex_am" by (simp add: ex_world_simps)
  have b: "sorted (map fst ex_reports @ [40000])" by (simp add: ex_reports_def)
  have c: "\<forall>k<length ex_reports.
           int (window_count DEFAULT_THRESHOLDS
                  (history_of ex_world ''worker-A'' @ take (Suc k) (map fst ex_reports))
                  (map fst ex_reports ! k))
             < failuresInWindow DEFAULT_THRESHOLDS"
    by (simp add: ex_reports_def h th window_count_def All_less_Suc)
  have n: "int (window_count DEFAULT_THRESHOLDS
               (history_of ex_world ''worker-A'' @ map fst ex_reports @ [40000]) 40000) = 5"
    by (simp add: ex_reports_def h th window_count_def)
  have d: "failuresInWindow DEFAULT_THRESHOLDS
     \<le> int (window_count DEFAULT_THRESHOLDS
               (history_of ex_world ''worker-A'' @ map fst ex_reports @ [40000]) 40000)"
    by (simp add: n th)
  note t = trackJobFailure_escalates_and_resets [OF a b c d, of "''job-5''" "''boom''" env_ok, unfolded Let_def n]
  have 1: "rendered (report_failures env_ok DEFAULT_THRESHOLDS ''worker-A'' ex_reports ex_world) = []"
    using t by (simp add: ex_world_simps)
  have 2: "sent (report_failures env_ok DEFAULT_THRESHOLDS ''worker-A'' ex_reports ex_world) = []"
    using t by (simp add: ex_world_simps)
  have "rendered (report_failures env_ok DEFAULT_THRESHOLDS ''worker-A''
               (ex_reports @ [(40000, ''job-5'', ''boom'')]) ex_world) =
     (if falsy (fromEmail (config ex_am)) then rendered ex_world
      else rendered ex_world @
        [([repeated_failures_alert DEFAULT_THRESHOLDS ''job-5'' ''worker-A'' ''boom'' 40000 5],
          REPEATED_FAILURES, HIGH)])"
    using t by blast
  then have 3: "rendered (report_failures env_ok DEFAULT_THRESHOLDS ''worker-A''
               (ex_reports @ [(40000, ''job-5'', ''boom'')]) ex_world) =
     [([repeated_failures_alert DEFAULT_THRESHOLDS ''job-5'' ''worker-A'' ''boom'' 40000 5],
       REPEATED_FAILURES, HIGH)]"
    by (simp add: falsy_def ex_am_simps ex_world_simps)
  have 4: "getFailureCount DEFAULT_THRESHOLDS ''worker-A''
     (report_failures env_ok DEFAULT_THRESHOLDS ''worker-A''
        (ex_reports @ [(40000, ''job-5'', ''boom'')]) ex_world) = 0"
    using t by blast
  show ?thesis using a b d 1 2 3 4 by blast
qed

text \<open>The same scenario, evaluated: threshold 5 and window 10 min, four failures within a
  minute raise nothing; the fifth raises one alert with the count 5, and the count read
  afterwards is 0.\<close>

lemma five_failures_escalate_once:
  "rendered (report_failures env_ok DEFAULT_THRESHOLDS ''worker-A'' ex_reports ex_world) = [] \<and>
   getFailureCount DEFAULT_THRESHOLDS ''worker-A''
     (report_failures env_ok DEFAULT_THRESHOLDS ''worker-A'' ex_reports ex_world) = 4 \<and>
   map (\<lambda>(alerts, ty, sev). (map alert_context alerts, ty, sev))
     (rendered (report_failures env_ok DEFAULT_THRESHOLDS ''worker-A''
                  (ex_reports @ [(40000, ''job-5'', ''boom'')]) ex_world)) =
     [([[(''failureCount'', CNum 5), (''timeWindowMinutes'', CNum 10),
         (''jobId'', CStr ''job-5''), (''error'', CStr ''boom'')]], REPEATED_FAILURES, HIGH)] \<and>
   getFailureCount DEFAULT_THRESHOLDS ''worker-A''
     (report_failures env_ok DEFAULT_THRESHOLDS ''worker-A''
        (ex_reports @ [(40000, ''job-5'', ''boom'')]) ex_world) = 0"
  by code_simp

text \<open>
  Claim C7. For any stored history whose timestamps are not later than the present,
  \<open>getFailureCount\<close> is the number of stored timestamps \<open>t\<close> with
  \<open>now - window \<le> t \<le> now\<close>, the lower bound included. It is a function of the world
  that returns a number only: the source writes nothing.
\<close>

theorem getFailureCount_counts_window:
  assumes "\<forall>t\<in>set (history_of w wn). t \<le> now w"
  shows "getFailureCount th wn w =
         length (filter (\<lambda>t. now w - timeWindowMinutes th * 60 * 1000 \<le> t \<and> t \<le> now w)
                   (history_of w wn))"
proof -
  have "filter (\<lambda>t. now w - timeWindowMinutes th * 60 * 1000 \<le> t) (history_of w wn) =
        filter (\<lambda>t. now w - timeWindowMinutes th * 60 * 1000 \<le> t \<and> t \<le> now w) (history_of w wn)"
    using assms by (intro filter_cong) auto
  then show ?thesis by (simp add: getFailureCount_def)
qed

theorem getFailureCount_counts_window_witness:
  "list_all (\<lambda>t. t \<le> now ex_world_boundary) (history_of ex_world_boundary ''worker-A'') \<and>
   now ex_world_boundary - timeWindowMinutes ex_thresholds * 60 * 1000 = 30000 \<and>
   history_of ex_world_boundary ''worker-A'' = [29999, 30000, 60000] \<and>
   getFailureCount ex_thresholds ''worker-A'' ex_world_boundary = 2"
proof -
  have h: "history_of ex_world_boundary ''worker-A'' = [29999, 30000, 60000]"
    by (simp add: ex_world_boundary_def history_of_def)
  have n: "now ex_world_boundary = 90000" by (simp add: ex_world_boundary_def)
  have a: "\<forall>t\<in>set (history_of ex_world_boundary ''worker-A''). t \<le> now ex_world_boundary"
    by (simp add: h n)
  have "getFailureCount ex_thresholds ''worker-A'' ex_world_boundary = 2"
    using getFailureCount_counts_window [OF a, of ex_thresholds] by (simp add: h n ex_thresholds_simps)
  with a h n show ?thesis by (simp add: ex_thresholds_simps)
qed

text \<open>
  Claim C9. With a positive threshold, after a call of \<open>trackJobFailure\<close> that returns,
  the worker's stored history has fewer entries than the threshold, hence so has its
  trailing window at any later time, and the next failure reported finds a count of at
  most the threshold.
\<close>

theorem trackJobFailure_leaves_count_below_threshold:
  assumes "0 < failuresInWindow th"
    and "trackJobFailure e th jobId wn err w = (Returns u, w')"
  shows "int (length (history_of w' wn)) < failuresInWindow th \<and>
         int (getFailureCount th wn w') < failuresInWindow th \<and>
         (\<forall>t. int (length (recent_failures th wn (w'\<lparr>now := t\<rparr>))) \<le> failuresInWindow th)"
proof -
  have len: "int (length (history_of w' wn)) < failuresInWindow th"
    using trackJobFailure_completed [OF assms(2)] assms(1) by auto
  have "getFailureCount th wn w' \<le> length (history_of w' wn)"
    by (simp add: getFailureCount_def)
  then have cnt: "int (getFailureCount th wn w') < failuresInWindow th"
    using len by linarith
  have "int (length (recent_failures th wn (w'\<lparr>now := t\<rparr>))) \<le> failuresInWindow th" for t
  proof -
    have "history_of (w'\<lparr>now := t\<rparr>) wn = history_of w' wn"
      by (simp add: history_of_def)
    then have "length (recent_failures th wn (w'\<lparr>now := t\<rparr>)) \<le> Suc (length (history_of w' wn))"
      unfolding recent_failures_def
      by (metis length_append_singleton length_filter_le)
    then show ?thesis using len by linarith
  qed
  with len cnt show ?thesis by blast
qed

theorem trackJobFailure_leaves_count_below_threshold_witness:
  "0 < failuresInWindow ex_thresholds \<and>
   fst (trackJobFailure env_ok ex_thresholds ''job-1'' ''worker-A'' ''boom'' ex_world_hist) = Returns () \<and>
   int (length (history_of
     (snd (trackJobFailure env_ok ex_thresholds ''job-1'' ''worker-A'' ''boom'' ex_world_hist))
     ''worker-A'')) < failuresInWindow ex_thresholds \<and>
   fst (trackJobFailure env_ok ex_thresholds ''job-0'' ''worker-A'' ''boom'' ex_world) = Returns () \<and>
   int (getFailureCount ex_thresholds ''worker-A''
     (snd (trackJobFailure env_ok ex_thresholds ''job-0'' ''worker-A'' ''boom'' ex_world)))
     < failuresInWindow ex_thresholds"
proof -
  have a: "0 < failuresInWindow ex_thresholds" by (simp add: ex_thresholds_simps)
  have b: "fst (trackJobFailure env_ok ex_thresholds ''job-1'' ''worker-A'' ''boom'' ex_world_hist) = Returns ()"
    by code_simp
  have c: "fst (trackJobFailure env_ok ex_thresholds ''job-0'' ''worker-A'' ''boom'' ex_world) = Returns ()"
    by code_simp
  have b': "trackJobFailure env_ok ex_thresholds ''job-1'' ''worker-A'' ''boom'' ex_world_hist =
     (Returns (), snd (trackJobFailure env_ok ex_thresholds ''job-1'' ''worker-A'' ''boom'' ex_world_hist))"
    using b by (metis prod.collapse)
  have c': "trackJobFailure env_ok ex_thresholds ''job-0'' ''worker-A'' ''boom'' ex_world =
     (Returns (), snd (trackJobFailure env_ok ex_thresholds ''job-0'' ''worker-A'' ''boom'' ex_world))"
    using c by (metis prod.collapse)
  show ?thesis
    using trackJobFailure_leaves_count_below_threshold [OF a b'] trackJobFailure_leaves_count_below_threshold [OF a c'] a b c by blast
qed

end
